theory Spec2Isabelle
  imports Complex_Main
begin

text \<open>
  A model of \<^verbatim>\<open>parse.go\<close> of gocronometer: the three entry points that turn an export
  of Cronometer (servings, exercises, biometrics) into records, the helpers they share,
  and what they use of the Go library (\<open>time.ParseInLocation\<close> for the one layout of
  the exports, \<open>strings.SplitN\<close>, \<open>strings.Contains\<close>; \<open>strconv.ParseFloat\<close> and
  the \<open>csv.Reader\<close> are inputs of the model). The properties follow the definitions.
\<close>

section \<open>Values of the Go runtime and standard library\<close>

text \<open>
  Go strings are byte sequences; they are modelled as \<open>string\<close> (a list of 8-bit
  characters), so the two UTF-8 bytes of the micro sign in the column names are written out.
\<close>

definition micro :: string where
  "micro = [CHR 0xC2, CHR 0xB5]"

text \<open>
  A \<open>*time.Location\<close> is a \<open>Location option\<close>, \<open>None\<close> being the nil pointer. A
  \<open>time.Time\<close> is represented by the call of \<open>time.Date\<close> that builds it:
  \<open>Date year month day hour min sec nsec loc\<close>.
\<close>

datatype Location = UTC | LoadLocation string

datatype Time = Date int int int int int int int Location

text \<open>The zero value \<open>time.Time{}\<close>: January 1, year 1, 00:00:00 UTC.\<close>

definition zeroTime :: Time where
  "zeroTime = Date 1 1 1 0 0 0 0 UTC"

text \<open>
  Errors are values. An error made by \<open>fmt.Errorf\<close> is kept as the call itself, the format
  string with its operands, so that the text and every operand of the message can be read
  off. \<open>NumError\<close> is \<open>strconv.NumError\<close> (Func, Num, Err), \<open>ParseError\<close> is
  \<open>time.ParseError\<close> (Layout, Value, LayoutElem, ValueElem, Message) and \<open>CsvParseError\<close>
  is \<open>csv.ParseError\<close> (StartLine, Line, Column, Err). The message of a
  \<open>time.ParseError\<close> is kept symbolic: \<open>ExtraText v\<close> stands for
  \<open>": extra text: " + quote(v)\<close> and \<open>OutOfRange s\<close> for \<open>": " + s + " out of range"\<close>.
\<close>

datatype message = NoMessage | ExtraText string | OutOfRange string

datatype error =
    ErrSyntax
  | ErrRange
  | NumError string string error
  | ParseError string string string string message
  | ErrFieldCount
  | ErrBareQuote
  | ErrQuote
  | CsvParseError nat nat nat error
  | Errorf string "operand list"
and operand = S string | E error

text \<open>
  \<open>strconv.ParseFloat\<close> is a parameter of the model: a function from the string and the
  bit size to an error or a number of the type \<open>'f\<close> that stands for \<open>float64\<close>. Every
  theorem below holds for every such function.
\<close>

type_synonym 'f ParseFloat = "string \<Rightarrow> nat \<Rightarrow> error + 'f"

subsection \<open>strings.SplitN and strings.Contains\<close>

text \<open>
  \<open>cutAt sep s\<close> splits \<open>s\<close> around the first occurrence of the byte \<open>sep\<close>;
  \<open>SplitN2 s sep\<close> is \<open>strings.SplitN(s, sep, 2)\<close> for a separator of one byte, and
  \<open>Contains s c\<close> is \<open>strings.Contains(s, c)\<close> for a substring of one byte.
\<close>

fun cutAt :: "char \<Rightarrow> string \<Rightarrow> (string \<times> string) option" where
  "cutAt sep [] = None"
| "cutAt sep (c # cs) =
     (if c = sep then Some ([], cs)
      else case cutAt sep cs of None \<Rightarrow> None | Some (a, b) \<Rightarrow> Some (c # a, b))"

definition SplitN2 :: "string \<Rightarrow> char \<Rightarrow> string list" where
  "SplitN2 s sep = (case cutAt sep s of None \<Rightarrow> [s] | Some (a, b) \<Rightarrow> [a, b])"

definition Contains :: "string \<Rightarrow> char \<Rightarrow> bool" where
  "Contains s c = (c \<in> set s)"

subsection \<open>time.ParseInLocation for the layout of the exports\<close>

definition DateTimeFormat :: string where
  "DateTimeFormat = ''2006-01-02 15:04''"

text \<open>
  The layout elements that \<open>DateTimeFormat\<close> uses, and the steps \<open>nextStdChunk\<close> cuts
  the layout into: each a literal prefix followed by one element.
\<close>

datatype std = stdLongYear | stdZeroMonth | stdZeroDay | stdHour | stdZeroMinute

fun stdstr :: "std \<Rightarrow> string" where
  "stdstr stdLongYear = ''2006''"
| "stdstr stdZeroMonth = ''01''"
| "stdstr stdZeroDay = ''02''"
| "stdstr stdHour = ''15''"
| "stdstr stdZeroMinute = ''04''"

definition layoutChunks :: "(string \<times> std) list" where
  "layoutChunks =
     [('''', stdLongYear), (''-'', stdZeroMonth), (''-'', stdZeroDay),
      ('' '', stdHour), ('':'', stdZeroMinute)]"

definition isDigitChar :: "char \<Rightarrow> bool" where
  "isDigitChar c = (48 \<le> (of_char c :: nat) \<and> (of_char c :: nat) \<le> 57)"

definition digitVal :: "char \<Rightarrow> int" where
  "digitVal c = int (of_char c) - 48"

definition isDigit :: "string \<Rightarrow> nat \<Rightarrow> bool" where
  "isDigit s i = (if length s \<le> i then False else isDigitChar (s ! i))"

definition cutspace :: "string \<Rightarrow> string" where
  "cutspace s = dropWhile (\<lambda>c. c = CHR '' '') s"

text \<open>
  \<open>skip value prefix\<close> consumes the literal prefix; a space of the prefix matches any run
  of spaces, also an empty one at the end of the value. \<open>Inl\<close> holds the value left at
  the point of failure.
\<close>

function skip :: "string \<Rightarrow> string \<Rightarrow> string + string" where
  "skip value [] = Inr value"
| "skip value (p # prefix) =
     (if p = CHR '' '' then
        (if value \<noteq> [] \<and> hd value \<noteq> CHR '' '' then Inl value
         else skip (cutspace value) (cutspace prefix))
      else if value = [] \<or> hd value \<noteq> p then Inl value
      else skip (tl value) prefix)"
  by pat_completeness auto
termination
  by (relation "measure (\<lambda>(v, p). length p)")
     (auto simp: cutspace_def less_Suc_eq_le length_dropWhile_le)

text \<open>\<open>getnum s fixed\<close> reads one or two digits, exactly two when \<open>fixed\<close>.\<close>

definition getnum :: "string \<Rightarrow> bool \<Rightarrow> (int \<times> string) option" where
  "getnum s fixed =
     (if \<not> isDigit s 0 then None
      else if \<not> isDigit s 1 then
        (if fixed then None else Some (digitVal (s ! 0), drop 1 s))
      else Some (digitVal (s ! 0) * 10 + digitVal (s ! 1), drop 2 s))"

text \<open>\<open>atoi\<close> on the four bytes of a long year, the first of which is a digit.\<close>

definition atoi :: "string \<Rightarrow> int option" where
  "atoi p =
     (if list_all isDigitChar p then Some (foldl (\<lambda>x c. x * 10 + digitVal c) 0 p)
      else None)"

text \<open>
  The variables of \<open>time.parse\<close> that the layout sets (\<open>min'\<close> is its \<open>min\<close>).
\<close>

record fields =
  year :: int
  month :: int
  day :: int
  hour :: int
  min' :: int

definition isLeap :: "int \<Rightarrow> bool" where
  "isLeap y = (y mod 4 = 0 \<and> (y mod 100 \<noteq> 0 \<or> y mod 400 = 0))"

definition daysIn :: "int \<Rightarrow> int \<Rightarrow> int" where
  "daysIn m y =
     (if m = 2 then (if isLeap y then 29 else 28)
      else if m = 4 \<or> m = 6 \<or> m = 9 \<or> m = 11 then 30
      else 31)"

text \<open>
  One layout element applied to the value: the rest of the value and the updated fields,
  or the \<open>time.ParseError\<close>. The range check comes before the check of \<open>err\<close>, as in
  the Go loop.
\<close>

definition parseStd ::
  "string \<Rightarrow> string \<Rightarrow> std \<Rightarrow> string \<Rightarrow> fields \<Rightarrow> error + (string \<times> fields)" where
  "parseStd alayout avalue sd value fs =
     (case sd of
        stdLongYear \<Rightarrow>
          (if length value < 4 \<or> \<not> isDigit value 0
           then Inl (ParseError alayout avalue (stdstr sd) value NoMessage)
           else case atoi (take 4 value) of
                  None \<Rightarrow> Inl (ParseError alayout avalue (stdstr sd) value NoMessage)
                | Some y \<Rightarrow> Inr (drop 4 value, fs\<lparr>year := y\<rparr>))
      | stdZeroMonth \<Rightarrow>
          (case getnum value True of
             None \<Rightarrow> Inl (ParseError alayout avalue (stdstr sd) value NoMessage)
           | Some (m, rest) \<Rightarrow>
               if m \<le> 0 \<or> 12 < m
               then Inl (ParseError alayout avalue (stdstr sd) rest (OutOfRange ''month''))
               else Inr (rest, fs\<lparr>month := m\<rparr>))
      | stdZeroDay \<Rightarrow>
          (case getnum value True of
             None \<Rightarrow> Inl (ParseError alayout avalue (stdstr sd) value NoMessage)
           | Some (d, rest) \<Rightarrow> Inr (rest, fs\<lparr>day := d\<rparr>))
      | stdHour \<Rightarrow>
          (case getnum value False of
             None \<Rightarrow> Inl (ParseError alayout avalue (stdstr sd) value NoMessage)
           | Some (h, rest) \<Rightarrow>
               if h < 0 \<or> 24 \<le> h
               then Inl (ParseError alayout avalue (stdstr sd) rest (OutOfRange ''hour''))
               else Inr (rest, fs\<lparr>hour := h\<rparr>))
      | stdZeroMinute \<Rightarrow>
          (case getnum value True of
             None \<Rightarrow> Inl (ParseError alayout avalue (stdstr sd) value NoMessage)
           | Some (mi, rest) \<Rightarrow>
               if mi < 0 \<or> 60 \<le> mi
               then Inl (ParseError alayout avalue (stdstr sd) rest (OutOfRange ''minute''))
               else Inr (rest, fs\<lparr>min' := mi\<rparr>)))"

text \<open>
  The loop of \<open>time.parse\<close> over the chunks of the layout. After the last element the
  value must be used up: anything left is "extra text".
\<close>

fun parseChunks ::
  "string \<Rightarrow> string \<Rightarrow> (string \<times> std) list \<Rightarrow> string \<Rightarrow> fields \<Rightarrow> error + fields" where
  "parseChunks alayout avalue [] value fs =
     (if value \<noteq> [] then Inl (ParseError alayout avalue '''' value (ExtraText value))
      else Inr fs)"
| "parseChunks alayout avalue ((prefix, sd) # chunks) value fs =
     (case skip value prefix of
        Inl value' \<Rightarrow> Inl (ParseError alayout avalue prefix value' NoMessage)
      | Inr value' \<Rightarrow>
          (case parseStd alayout avalue sd value' fs of
             Inl err \<Rightarrow> Inl err
           | Inr (value'', fs') \<Rightarrow> parseChunks alayout avalue chunks value'' fs'))"

text \<open>
  \<open>ParseInLocation value loc\<close> is \<open>time.ParseInLocation(DateTimeFormat, value, loc)\<close>: the
  loop, the defaults for a month or day the layout does not set, the check of the day
  against the month, and the time built by \<open>time.Date\<close> in the given location.
\<close>

definition ParseInLocation :: "string \<Rightarrow> Location \<Rightarrow> error + Time" where
  "ParseInLocation value loc =
     (case parseChunks DateTimeFormat value layoutChunks value
             \<lparr>year = 0, month = - 1, day = - 1, hour = 0, min' = 0\<rparr> of
        Inl err \<Rightarrow> Inl err
      | Inr fs \<Rightarrow>
          let m = (if month fs < 0 then 1 else month fs);
              d = (if day fs < 0 then 1 else day fs)
          in if d < 1 \<or> daysIn m (year fs) < d
             then Inl (ParseError DateTimeFormat value '''' '''' (OutOfRange ''day''))
             else Inr (Date (year fs) m d (hour fs) (min' fs) 0 0 loc))"

section \<open>parse.go\<close>

subsection \<open>parseDateTime, parseFloat, parseNutrientFloat\<close>

definition parseDateTime :: "string \<Rightarrow> string \<Rightarrow> Location option \<Rightarrow> error + Time" where
  "parseDateTime date timeStr location =
     (let location' = (case location of None \<Rightarrow> UTC | Some l \<Rightarrow> l);
          timeStr' = (if timeStr = '''' then ''00:00'' else timeStr);
          dateTimeStr = date @ '' '' @ timeStr'
      in case ParseInLocation dateTimeStr location' of
           Inl err \<Rightarrow>
             Inl (Errorf ''invalid date/time format %q: %w'' [S dateTimeStr, E err])
         | Inr t \<Rightarrow> Inr t)"

definition parseFloat :: "'f ParseFloat \<Rightarrow> string \<Rightarrow> nat \<Rightarrow> error + ('f::zero)" where
  "parseFloat pf s bitSize = (if s = '''' then Inr 0 else pf s bitSize)"

definition parseNutrientFloat :: "'f ParseFloat \<Rightarrow> string \<Rightarrow> string \<Rightarrow> error + ('f::zero)" where
  "parseNutrientFloat pf value nutrient =
     (case parseFloat pf value 64 of
        Inl err \<Rightarrow> Inl (Errorf ''parsing %s value %q: %w'' [S nutrient, S value, E err])
      | Inr f \<Rightarrow> Inr f)"

subsection \<open>The read loop shared by the three entry points\<close>

text \<open>
  The \<open>csv.Reader\<close> is represented by the results its \<open>Read\<close> method gives, in order,
  before it gives \<open>io.EOF\<close>: a record (the cells of one row) or an error. The header map
  \<open>headers\<close> is a Go \<open>map[int]string\<close>; a key that is absent reads as the empty string.
\<close>

type_synonym reads = "(error + string list) list"

type_synonym headers = "nat \<rightharpoonup> string"

fun indexHeaders :: "headers \<Rightarrow> nat \<Rightarrow> string list \<Rightarrow> headers" where
  "indexHeaders headers i [] = headers"
| "indexHeaders headers i (v # record) = indexHeaders (headers(i \<mapsto> v)) (i + 1) record"

definition columnAt :: "headers \<Rightarrow> nat \<Rightarrow> string" where
  "columnAt headers i = (case headers i of None \<Rightarrow> '''' | Some name \<Rightarrow> name)"

text \<open>
  The inner loop \<open>for i, v := range record\<close> is the same in the three entry points:
  the column name of the cell is looked up in the header map and the \<open>switch\<close> of the
  entry point, here \<open>cell\<close>, is run on the state of the scan; an error returns at once.
\<close>

fun scanRecord ::
  "(string \<Rightarrow> string \<Rightarrow> 's \<Rightarrow> error + 's) \<Rightarrow> headers \<Rightarrow> nat \<Rightarrow> string list \<Rightarrow> 's \<Rightarrow> error + 's" where
  "scanRecord cell headers i [] st = Inr st"
| "scanRecord cell headers i (v # record) st =
     (case cell (columnAt headers i) v st of
        Inl err \<Rightarrow> Inl err
      | Inr st' \<Rightarrow> scanRecord cell headers (i + 1) record st')"

text \<open>\<open>if location == nil { location = time.UTC }\<close>\<close>

definition orUTC :: "Location option \<Rightarrow> Location option" where
  "orUTC location = (if location = None then Some UTC else location)"

text \<open>
  The three entry points run the same loop (lines 123-553, 584-645 and 668-725) around a
  row body of their own. \<open>row\<close> is that body: from the header map, the record and the
  location it gives the decoded record and the location (set to UTC when it was nil), or
  the error. The loop returns the pair the Go function returns: the slice (nil, that is
  \<open>[]\<close>, beside an error) and the error (\<open>None\<close> for nil).
\<close>

fun readLoop ::
  "(headers \<Rightarrow> string list \<Rightarrow> Location option \<Rightarrow> error + ('r \<times> Location option)) \<Rightarrow>
   reads \<Rightarrow> nat \<Rightarrow> headers \<Rightarrow> 'r list \<Rightarrow> Location option \<Rightarrow> 'r list \<times> error option" where
  "readLoop row [] lineNum headers records location = (records, None)"
| "readLoop row (Inl err # rest) lineNum headers records location = ([], Some err)"
| "readLoop row (Inr record # rest) lineNum headers records location =
     (if lineNum = 0
      then readLoop row rest (lineNum + 1) (indexHeaders headers 0 record) records location
      else case row headers record location of
             Inl err \<Rightarrow> ([], Some err)
           | Inr (r, location') \<Rightarrow>
               readLoop row rest (lineNum + 1) headers (records @ [r]) location')"

subsection \<open>ParseExerciseExport\<close>

record 'f ExerciseRecord =
  RecordedTime :: Time
  Exercise :: string
  Minutes :: 'f
  CaloriesBurned :: 'f

text \<open>
  The state of the scan of one row: the staged \<open>date\<close> and \<open>timeStr\<close> and the record
  being filled. \<open>exerciseCell\<close> is the \<open>switch\<close> on the column name.
\<close>

type_synonym 'f exerciseScan = "string \<times> string \<times> 'f ExerciseRecord"

definition exerciseCell ::
  "'f ParseFloat \<Rightarrow> string \<Rightarrow> string \<Rightarrow> 'f exerciseScan \<Rightarrow> error + ('f::zero) exerciseScan" where
  "exerciseCell pf columnName v st =
     (case st of (date, timeStr, exercise) \<Rightarrow>
        if columnName = ''Day'' then Inr (v, timeStr, exercise)
        else if columnName = ''Time'' then Inr (date, v, exercise)
        else if columnName = ''Exercise'' then Inr (date, timeStr, exercise\<lparr>Exercise := v\<rparr>)
        else if columnName = ''Minutes'' then
          (case parseFloat pf v 64 of
             Inl err \<Rightarrow> Inl (Errorf ''parsing energy: %s'' [E err])
           | Inr f \<Rightarrow> Inr (date, timeStr, exercise\<lparr>Minutes := f\<rparr>))
        else if columnName = ''Calories Burned'' then
          (case parseFloat pf v 64 of
             Inl err \<Rightarrow> Inl (Errorf ''parsing caffeine: %s'' [E err])
           | Inr f \<Rightarrow> Inr (date, timeStr, exercise\<lparr>CaloriesBurned := f\<rparr>))
        else Inr st)"

definition exerciseRow ::
  "'f ParseFloat \<Rightarrow> headers \<Rightarrow> string list \<Rightarrow> Location option \<Rightarrow>
   error + (('f::zero) ExerciseRecord \<times> Location option)" where
  "exerciseRow pf headers record location =
     (case scanRecord (exerciseCell pf) headers 0 record
             ('''', '''',
              \<lparr>ExerciseRecord.RecordedTime = zeroTime, Exercise = '''', Minutes = 0,
               CaloriesBurned = 0\<rparr>) of
        Inl err \<Rightarrow> Inl err
      | Inr (date, timeStr, exercise) \<Rightarrow>
          let timeStr' = (if timeStr = '''' then ''00:00 AM'' else timeStr);
              location' = orUTC location
          in case parseDateTime date timeStr' location' of
               Inl err \<Rightarrow> Inl (Errorf ''parsing exercise time: %w'' [E err])
             | Inr t \<Rightarrow> Inr (exercise\<lparr>ExerciseRecord.RecordedTime := t\<rparr>, location'))"

definition ParseExerciseExport ::
  "'f ParseFloat \<Rightarrow> reads \<Rightarrow> Location option \<Rightarrow> ('f::zero) ExerciseRecord list \<times> error option" where
  "ParseExerciseExport pf rawCSVReader location =
     readLoop (exerciseRow pf) rawCSVReader 0 Map.empty [] location"

subsection \<open>ParseBiometricRecordsExport\<close>

record 'f BiometricRecord =
  RecordedTime :: Time
  Metric :: string
  Unit :: string
  Amount :: 'f

type_synonym 'f biometricScan = "string \<times> string \<times> 'f BiometricRecord"

definition biometricCell ::
  "'f ParseFloat \<Rightarrow> string \<Rightarrow> string \<Rightarrow> 'f biometricScan \<Rightarrow> error + ('f::zero) biometricScan" where
  "biometricCell pf columnName v st =
     (case st of (date, timeStr, bioRecord) \<Rightarrow>
        if columnName = ''Day'' then Inr (v, timeStr, bioRecord)
        else if columnName = ''Time'' then Inr (date, v, bioRecord)
        else if columnName = ''Metric'' then Inr (date, timeStr, bioRecord\<lparr>Metric := v\<rparr>)
        else if columnName = ''Unit'' then Inr (date, timeStr, bioRecord\<lparr>Unit := v\<rparr>)
        else if columnName = ''Amount'' then
          (if \<not> Contains v (CHR ''/'') then
             (case parseFloat pf v 64 of
                Inl err \<Rightarrow> Inl (Errorf ''parsing energy: %s'' [E err])
              | Inr f \<Rightarrow> Inr (date, timeStr, bioRecord\<lparr>Amount := f\<rparr>))
           else Inr st)
        else Inr st)"

definition biometricRow ::
  "'f ParseFloat \<Rightarrow> headers \<Rightarrow> string list \<Rightarrow> Location option \<Rightarrow>
   error + (('f::zero) BiometricRecord \<times> Location option)" where
  "biometricRow pf headers record location =
     (case scanRecord (biometricCell pf) headers 0 record
             ('''', '''',
              \<lparr>BiometricRecord.RecordedTime = zeroTime, Metric = '''', Unit = '''',
               Amount = 0\<rparr>) of
        Inl err \<Rightarrow> Inl err
      | Inr (date, timeStr, bioRecord) \<Rightarrow>
          let timeStr' = (if timeStr = '''' then ''00:00 AM'' else timeStr);
              location' = orUTC location
          in case parseDateTime date timeStr' location' of
               Inl err \<Rightarrow> Inl (Errorf ''parsing biometric time: %w'' [E err])
             | Inr t \<Rightarrow> Inr (bioRecord\<lparr>BiometricRecord.RecordedTime := t\<rparr>, location'))"

definition ParseBiometricRecordsExport ::
  "'f ParseFloat \<Rightarrow> reads \<Rightarrow> Location option \<Rightarrow> ('f::zero) BiometricRecord list \<times> error option" where
  "ParseBiometricRecordsExport pf rawCSVReader location =
     readLoop (biometricRow pf) rawCSVReader 0 Map.empty [] location"

subsection \<open>ParseServingsExport\<close>

record 'f ServingRecord =
  RecordedTime :: Time
  Group :: string
  FoodName :: string
  QuantityValue :: 'f
  QuantityUnits :: string
  EnergyKcal :: 'f
  CaffeineMg :: 'f
  WaterG :: 'f
  B1Mg :: 'f
  B2Mg :: 'f
  B3Mg :: 'f
  B5Mg :: 'f
  B6Mg :: 'f
  B12Mg :: 'f
  BiotinUg :: 'f
  CholineMg :: 'f
  FolateUg :: 'f
  VitaminAUI :: 'f
  VitaminCMg :: 'f
  VitaminDUI :: 'f
  VitaminEMg :: 'f
  VitaminKMg :: 'f
  CalciumMg :: 'f
  ChromiumUg :: 'f
  CopperMg :: 'f
  FluorideUg :: 'f
  IodineUg :: 'f
  MagnesiumMg :: 'f
  ManganeseMg :: 'f
  PhosphorusMg :: 'f
  PotassiumMg :: 'f
  SeleniumUg :: 'f
  SodiumMg :: 'f
  ZincMg :: 'f
  CarbsG :: 'f
  FiberG :: 'f
  FructoseG :: 'f
  GalactoseG :: 'f
  GlucoseG :: 'f
  LactoseG :: 'f
  MaltoseG :: 'f
  StarchG :: 'f
  SucroseG :: 'f
  SugarsG :: 'f
  NetCarbsG :: 'f
  FatG :: 'f
  CholesterolMg :: 'f
  MonounsaturatedG :: 'f
  PolyunsaturatedG :: 'f
  SaturatedG :: 'f
  TransFatG :: 'f
  Omega3G :: 'f
  Omega6G :: 'f
  CystineG :: 'f
  HistidineG :: 'f
  IsoleucineG :: 'f
  LeucineG :: 'f
  LysineG :: 'f
  MethionineG :: 'f
  PhenylalanineG :: 'f
  ThreonineG :: 'f
  TryptophanG :: 'f
  TyrosineG :: 'f
  ValineG :: 'f
  ProteinG :: 'f
  IronMg :: 'f
  Category :: string

type_synonym 'f servingScan = "string \<times> string \<times> 'f ServingRecord"

text \<open>
  The body shared by the nutrient cases of the \<open>switch\<close>: \<open>parseNutrientFloat\<close> with the
  label of the case, the error returned as it is, the value assigned to the field of the
  case.
\<close>

definition nutrient ::
  "'f ParseFloat \<Rightarrow> string \<Rightarrow> string \<Rightarrow> ('f \<Rightarrow> 'f ServingRecord \<Rightarrow> 'f ServingRecord) \<Rightarrow>
   'f servingScan \<Rightarrow> error + ('f::zero) servingScan" where
  "nutrient pf v label assign st =
     (case st of (date, timeStr, serving) \<Rightarrow>
        case parseNutrientFloat pf v label of
          Inl err \<Rightarrow> Inl err
        | Inr f \<Rightarrow> Inr (date, timeStr, assign f serving))"

text \<open>
  The format string \<open>"invalid amount format %q, expected 'value unit'"\<close>; the byte
  \<open>0x27\<close> is the apostrophe.
\<close>

definition invalidAmountFormat :: string where
  "invalidAmountFormat =
     ''invalid amount format %q, expected '' @ [CHR 0x27] @ ''value unit'' @ [CHR 0x27]"

definition servingCell ::
  "'f ParseFloat \<Rightarrow> string \<Rightarrow> string \<Rightarrow> 'f servingScan \<Rightarrow> error + ('f::zero) servingScan" where
  "servingCell pf columnName v st =
     (case st of (date, timeStr, serving) \<Rightarrow>
        if columnName = ''Day'' then Inr (v, timeStr, serving)
        else if columnName = ''Time'' then Inr (date, v, serving)
        else if columnName = ''Group'' then Inr (date, timeStr, serving\<lparr>Group := v\<rparr>)
        else if columnName = ''Food Name'' then Inr (date, timeStr, serving\<lparr>FoodName := v\<rparr>)
        else if columnName = ''Amount'' then
          (let parts = SplitN2 v (CHR '' '') in
           if length parts < 2
           then Inl (Errorf invalidAmountFormat [S v])
           else case parseFloat pf (parts ! 0) 64 of
                  Inl err \<Rightarrow> Inl (Errorf ''parsing quantity value %q: %w'' [S (parts ! 0), E err])
                | Inr f \<Rightarrow>
                    Inr (date, timeStr,
                         serving\<lparr>QuantityValue := f, QuantityUnits := parts ! 1\<rparr>))
        else if columnName = ''Energy (kcal)'' then
          nutrient pf v ''energy'' (\<lambda>f s. s\<lparr>EnergyKcal := f\<rparr>) st
        else if columnName = ''Caffeine (mg)'' then
          nutrient pf v ''caffeine'' (\<lambda>f s. s\<lparr>CaffeineMg := f\<rparr>) st
        else if columnName = ''Water (g)'' then
          nutrient pf v ''water'' (\<lambda>f s. s\<lparr>WaterG := f\<rparr>) st
        else if columnName = ''B1 (Thiamine) (mg)'' then
          nutrient pf v ''vitamin B1'' (\<lambda>f s. s\<lparr>B1Mg := f\<rparr>) st
        else if columnName = ''B2 (Riboflavin) (mg)'' then
          nutrient pf v ''vitamin B2'' (\<lambda>f s. s\<lparr>B2Mg := f\<rparr>) st
        else if columnName = ''B3 (Niacin) (mg)'' then
          nutrient pf v ''vitamin B3'' (\<lambda>f s. s\<lparr>B3Mg := f\<rparr>) st
        else if columnName = ''B5 (Pantothenic Acid) (mg)'' then
          nutrient pf v ''vitamin B5'' (\<lambda>f s. s\<lparr>B5Mg := f\<rparr>) st
        else if columnName = ''B6 (Pyridoxine) (mg)'' then
          nutrient pf v ''vitamin B6'' (\<lambda>f s. s\<lparr>B6Mg := f\<rparr>) st
        else if columnName = ''B12 (Cobalamin) ('' @ micro @ ''g)'' then
          nutrient pf v ''vitamin B12'' (\<lambda>f s. s\<lparr>B12Mg := f\<rparr>) st
        else if columnName = ''Biotin ('' @ micro @ ''g)'' then
          nutrient pf v ''biotin'' (\<lambda>f s. s\<lparr>BiotinUg := f\<rparr>) st
        else if columnName = ''Choline (mg)'' then
          nutrient pf v ''choline'' (\<lambda>f s. s\<lparr>CholineMg := f\<rparr>) st
        else if columnName = ''Folate ('' @ micro @ ''g)'' then
          nutrient pf v ''folate'' (\<lambda>f s. s\<lparr>FolateUg := f\<rparr>) st
        else if columnName = ''Vitamin A (IU)'' then
          nutrient pf v ''vitamin A'' (\<lambda>f s. s\<lparr>VitaminAUI := f\<rparr>) st
        else if columnName = ''Vitamin C (mg)'' then
          nutrient pf v ''vitamin C'' (\<lambda>f s. s\<lparr>VitaminCMg := f\<rparr>) st
        else if columnName = ''Vitamin D (IU)'' then
          nutrient pf v ''vitamin D'' (\<lambda>f s. s\<lparr>VitaminDUI := f\<rparr>) st
        else if columnName = ''Vitamin E (mg)'' then
          nutrient pf v ''vitamin E'' (\<lambda>f s. s\<lparr>VitaminEMg := f\<rparr>) st
        else if columnName = ''Vitamin K ('' @ micro @ ''g)'' then
          nutrient pf v ''vitamin K'' (\<lambda>f s. s\<lparr>VitaminKMg := f\<rparr>) st
        else if columnName = ''Calcium (mg)'' then
          nutrient pf v ''calcium'' (\<lambda>f s. s\<lparr>CalciumMg := f\<rparr>) st
        else if columnName = ''Chromium ('' @ micro @ ''g)'' then
          nutrient pf v ''chromium'' (\<lambda>f s. s\<lparr>ChromiumUg := f\<rparr>) st
        else if columnName = ''Copper (mg)'' then
          nutrient pf v ''copper'' (\<lambda>f s. s\<lparr>CopperMg := f\<rparr>) st
        else if columnName = ''Fluoride ('' @ micro @ ''g)'' then
          nutrient pf v ''fluoride'' (\<lambda>f s. s\<lparr>FluorideUg := f\<rparr>) st
        else if columnName = ''Iodine ('' @ micro @ ''g)'' then
          nutrient pf v ''iodine'' (\<lambda>f s. s\<lparr>IodineUg := f\<rparr>) st
        else if columnName = ''Iron (mg)'' then
          nutrient pf v ''iron'' (\<lambda>f s. s\<lparr>IronMg := f\<rparr>) st
        else if columnName = ''Magnesium (mg)'' then
          nutrient pf v ''magnesium'' (\<lambda>f s. s\<lparr>MagnesiumMg := f\<rparr>) st
        else if columnName = ''Manganese (mg)'' then
          nutrient pf v ''manganese'' (\<lambda>f s. s\<lparr>ManganeseMg := f\<rparr>) st
        else if columnName = ''Phosphorus (mg)'' then
          nutrient pf v ''phosphorus'' (\<lambda>f s. s\<lparr>PhosphorusMg := f\<rparr>) st
        else if columnName = ''Potassium (mg)'' then
          nutrient pf v ''potassium'' (\<lambda>f s. s\<lparr>PotassiumMg := f\<rparr>) st
        else if columnName = ''Selenium ('' @ micro @ ''g)'' then
          nutrient pf v ''selenium'' (\<lambda>f s. s\<lparr>SeleniumUg := f\<rparr>) st
        else if columnName = ''Sodium (mg)'' then
          nutrient pf v ''sodium'' (\<lambda>f s. s\<lparr>SodiumMg := f\<rparr>) st
        else if columnName = ''Zinc (mg)'' then
          nutrient pf v ''zinc'' (\<lambda>f s. s\<lparr>ZincMg := f\<rparr>) st
        else if columnName = ''Carbs (g)'' then
          nutrient pf v ''carbohydrates'' (\<lambda>f s. s\<lparr>CarbsG := f\<rparr>) st
        else if columnName = ''Fiber (g)'' then
          nutrient pf v ''fiber'' (\<lambda>f s. s\<lparr>FiberG := f\<rparr>) st
        else if columnName = ''Fructose (g)'' then
          nutrient pf v ''fructose'' (\<lambda>f s. s\<lparr>FructoseG := f\<rparr>) st
        else if columnName = ''Galactose (g)'' then
          nutrient pf v ''galactose'' (\<lambda>f s. s\<lparr>GalactoseG := f\<rparr>) st
        else if columnName = ''Glucose (g)'' then
          nutrient pf v ''glucose'' (\<lambda>f s. s\<lparr>GlucoseG := f\<rparr>) st
        else if columnName = ''Lactose (g)'' then
          nutrient pf v ''lactose'' (\<lambda>f s. s\<lparr>LactoseG := f\<rparr>) st
        else if columnName = ''Maltose (g)'' then
          nutrient pf v ''maltose'' (\<lambda>f s. s\<lparr>MaltoseG := f\<rparr>) st
        else if columnName = ''Starch (g)'' then
          nutrient pf v ''starch'' (\<lambda>f s. s\<lparr>StarchG := f\<rparr>) st
        else if columnName = ''Sucrose (g)'' then
          nutrient pf v ''sucrose'' (\<lambda>f s. s\<lparr>SucroseG := f\<rparr>) st
        else if columnName = ''Sugars (g)'' then
          nutrient pf v ''sugars'' (\<lambda>f s. s\<lparr>SugarsG := f\<rparr>) st
        else if columnName = ''Net Carbs (g)'' then
          nutrient pf v ''net carbs'' (\<lambda>f s. s\<lparr>NetCarbsG := f\<rparr>) st
        else if columnName = ''Fat (g)'' then
          nutrient pf v ''fat'' (\<lambda>f s. s\<lparr>FatG := f\<rparr>) st
        else if columnName = ''Cholesterol (mg)'' then
          nutrient pf v ''cholesterol'' (\<lambda>f s. s\<lparr>CholesterolMg := f\<rparr>) st
        else if columnName = ''Monounsaturated (g)'' then
          nutrient pf v ''monounsaturated fat'' (\<lambda>f s. s\<lparr>MonounsaturatedG := f\<rparr>) st
        else if columnName = ''Polyunsaturated (g)'' then
          nutrient pf v ''polyunsaturated fat'' (\<lambda>f s. s\<lparr>PolyunsaturatedG := f\<rparr>) st
        else if columnName = ''Saturated (g)'' then
          nutrient pf v ''saturated fat'' (\<lambda>f s. s\<lparr>SaturatedG := f\<rparr>) st
        else if columnName = ''Trans-Fats (g)'' then
          nutrient pf v ''trans fat'' (\<lambda>f s. s\<lparr>TransFatG := f\<rparr>) st
        else if columnName = ''Omega-3 (g)'' then
          nutrient pf v ''omega-3'' (\<lambda>f s. s\<lparr>Omega3G := f\<rparr>) st
        else if columnName = ''Omega-6 (g)'' then
          nutrient pf v ''omega-6'' (\<lambda>f s. s\<lparr>Omega6G := f\<rparr>) st
        else if columnName = ''Cystine (g)'' then
          nutrient pf v ''cystine'' (\<lambda>f s. s\<lparr>CystineG := f\<rparr>) st
        else if columnName = ''Histidine (g)'' then
          nutrient pf v ''histidine'' (\<lambda>f s. s\<lparr>HistidineG := f\<rparr>) st
        else if columnName = ''Isoleucine (g)'' then
          nutrient pf v ''isoleucine'' (\<lambda>f s. s\<lparr>IsoleucineG := f\<rparr>) st
        else if columnName = ''Leucine (g)'' then
          nutrient pf v ''leucine'' (\<lambda>f s. s\<lparr>LeucineG := f\<rparr>) st
        else if columnName = ''Lysine (g)'' then
          nutrient pf v ''lysine'' (\<lambda>f s. s\<lparr>LysineG := f\<rparr>) st
        else if columnName = ''Methionine (g)'' then
          nutrient pf v ''methionine'' (\<lambda>f s. s\<lparr>MethionineG := f\<rparr>) st
        else if columnName = ''Phenylalanine (g)'' then
          nutrient pf v ''phenylalanine'' (\<lambda>f s. s\<lparr>PhenylalanineG := f\<rparr>) st
        else if columnName = ''Protein (g)'' then
          nutrient pf v ''protein'' (\<lambda>f s. s\<lparr>ProteinG := f\<rparr>) st
        else if columnName = ''Threonine (g)'' then
          nutrient pf v ''threonine'' (\<lambda>f s. s\<lparr>ThreonineG := f\<rparr>) st
        else if columnName = ''Tryptophan (g)'' then
          nutrient pf v ''tryptophan'' (\<lambda>f s. s\<lparr>TryptophanG := f\<rparr>) st
        else if columnName = ''Tyrosine (g)'' then
          nutrient pf v ''tyrosine'' (\<lambda>f s. s\<lparr>TyrosineG := f\<rparr>) st
        else if columnName = ''Valine (g)'' then
          nutrient pf v ''valine'' (\<lambda>f s. s\<lparr>ValineG := f\<rparr>) st
        else if columnName = ''Category'' then Inr (date, timeStr, serving\<lparr>Category := v\<rparr>)
        else Inr st)"

text \<open>The zero value \<open>ServingRecord{}\<close>.\<close>

definition emptyServing :: "('f::zero) ServingRecord" where
  "emptyServing =
     \<lparr>ServingRecord.RecordedTime = zeroTime, Group = '''', FoodName = '''',
              QuantityValue = 0, QuantityUnits = '''', EnergyKcal = 0, CaffeineMg = 0,
              WaterG = 0, B1Mg = 0, B2Mg = 0, B3Mg = 0, B5Mg = 0, B6Mg = 0, B12Mg = 0,
              BiotinUg = 0, CholineMg = 0, FolateUg = 0, VitaminAUI = 0, VitaminCMg = 0,
              VitaminDUI = 0, VitaminEMg = 0, VitaminKMg = 0, CalciumMg = 0, ChromiumUg = 0,
              CopperMg = 0, FluorideUg = 0, IodineUg = 0, MagnesiumMg = 0, ManganeseMg = 0,
              PhosphorusMg = 0, PotassiumMg = 0, SeleniumUg = 0, SodiumMg = 0, ZincMg = 0,
              CarbsG = 0, FiberG = 0, FructoseG = 0, GalactoseG = 0, GlucoseG = 0,
              LactoseG = 0, MaltoseG = 0, StarchG = 0, SucroseG = 0, SugarsG = 0,
              NetCarbsG = 0, FatG = 0, CholesterolMg = 0, MonounsaturatedG = 0,
              PolyunsaturatedG = 0, SaturatedG = 0, TransFatG = 0, Omega3G = 0, Omega6G = 0,
              CystineG = 0, HistidineG = 0, IsoleucineG = 0, LeucineG = 0, LysineG = 0,
              MethionineG = 0, PhenylalanineG = 0, ThreonineG = 0, TryptophanG = 0,
              TyrosineG = 0, ValineG = 0, ProteinG = 0, IronMg = 0, Category = ''''\<rparr>"

definition servingRow ::
  "'f ParseFloat \<Rightarrow> headers \<Rightarrow> string list \<Rightarrow> Location option \<Rightarrow>
   error + (('f::zero) ServingRecord \<times> Location option)" where
  "servingRow pf headers record location =
     (case scanRecord (servingCell pf) headers 0 record ('''', '''', emptyServing) of
        Inl err \<Rightarrow> Inl err
      | Inr (date, timeStr, serving) \<Rightarrow>
          let timeStr' = (if timeStr = '''' then ''00:00 AM'' else timeStr);
              location' = orUTC location
          in case parseDateTime date timeStr' location' of
               Inl err \<Rightarrow> Inl (Errorf ''parsing serving time: %w'' [E err])
             | Inr t \<Rightarrow> Inr (serving\<lparr>ServingRecord.RecordedTime := t\<rparr>, location'))"

definition ParseServingsExport ::
  "'f ParseFloat \<Rightarrow> reads \<Rightarrow> Location option \<Rightarrow> ('f::zero) ServingRecord list \<times> error option" where
  "ParseServingsExport pf rawCSVReader location =
     readLoop (servingRow pf) rawCSVReader 0 Map.empty [] location"

section \<open>Notions used to state the properties\<close>

subsection \<open>The column names each entry point recognises\<close>

text \<open>The case labels of the three \<open>switch\<close> statements, in the order of the source.\<close>

definition exerciseColumns :: "string list" where
  "exerciseColumns = [''Day'', ''Time'', ''Exercise'', ''Minutes'', ''Calories Burned'']"

definition biometricColumns :: "string list" where
  "biometricColumns = [''Day'', ''Time'', ''Metric'', ''Unit'', ''Amount'']"

definition servingColumns :: "string list" where
  "servingColumns =
     [''Day'', ''Time'', ''Group'', ''Food Name'', ''Amount'',
      ''Energy (kcal)'',
      ''Caffeine (mg)'',
      ''Water (g)'',
      ''B1 (Thiamine) (mg)'',
      ''B2 (Riboflavin) (mg)'',
      ''B3 (Niacin) (mg)'',
      ''B5 (Pantothenic Acid) (mg)'',
      ''B6 (Pyridoxine) (mg)'',
      ''B12 (Cobalamin) ('' @ micro @ ''g)'',
      ''Biotin ('' @ micro @ ''g)'',
      ''Choline (mg)'',
      ''Folate ('' @ micro @ ''g)'',
      ''Vitamin A (IU)'',
      ''Vitamin C (mg)'',
      ''Vitamin D (IU)'',
      ''Vitamin E (mg)'',
      ''Vitamin K ('' @ micro @ ''g)'',
      ''Calcium (mg)'',
      ''Chromium ('' @ micro @ ''g)'',
      ''Copper (mg)'',
      ''Fluoride ('' @ micro @ ''g)'',
      ''Iodine ('' @ micro @ ''g)'',
      ''Iron (mg)'',
      ''Magnesium (mg)'',
      ''Manganese (mg)'',
      ''Phosphorus (mg)'',
      ''Potassium (mg)'',
      ''Selenium ('' @ micro @ ''g)'',
      ''Sodium (mg)'',
      ''Zinc (mg)'',
      ''Carbs (g)'',
      ''Fiber (g)'',
      ''Fructose (g)'',
      ''Galactose (g)'',
      ''Glucose (g)'',
      ''Lactose (g)'',
      ''Maltose (g)'',
      ''Starch (g)'',
      ''Sucrose (g)'',
      ''Sugars (g)'',
      ''Net Carbs (g)'',
      ''Fat (g)'',
      ''Cholesterol (mg)'',
      ''Monounsaturated (g)'',
      ''Polyunsaturated (g)'',
      ''Saturated (g)'',
      ''Trans-Fats (g)'',
      ''Omega-3 (g)'',
      ''Omega-6 (g)'',
      ''Cystine (g)'',
      ''Histidine (g)'',
      ''Isoleucine (g)'',
      ''Leucine (g)'',
      ''Lysine (g)'',
      ''Methionine (g)'',
      ''Phenylalanine (g)'',
      ''Protein (g)'',
      ''Threonine (g)'',
      ''Tryptophan (g)'',
      ''Tyrosine (g)'',
      ''Valine (g)'',
      ''Category'']"

text \<open>
  The nutrient cases of \<open>ParseServingsExport\<close>: the column name with the field of
  \<open>ServingRecord\<close> that the case assigns.
\<close>

definition nutrientColumns :: "(string \<times> ('f ServingRecord \<Rightarrow> 'f)) list" where
  "nutrientColumns =
     [(''Energy (kcal)'', EnergyKcal),
      (''Caffeine (mg)'', CaffeineMg),
      (''Water (g)'', WaterG),
      (''B1 (Thiamine) (mg)'', B1Mg),
      (''B2 (Riboflavin) (mg)'', B2Mg),
      (''B3 (Niacin) (mg)'', B3Mg),
      (''B5 (Pantothenic Acid) (mg)'', B5Mg),
      (''B6 (Pyridoxine) (mg)'', B6Mg),
      (''B12 (Cobalamin) ('' @ micro @ ''g)'', B12Mg),
      (''Biotin ('' @ micro @ ''g)'', BiotinUg),
      (''Choline (mg)'', CholineMg),
      (''Folate ('' @ micro @ ''g)'', FolateUg),
      (''Vitamin A (IU)'', VitaminAUI),
      (''Vitamin C (mg)'', VitaminCMg),
      (''Vitamin D (IU)'', VitaminDUI),
      (''Vitamin E (mg)'', VitaminEMg),
      (''Vitamin K ('' @ micro @ ''g)'', VitaminKMg),
      (''Calcium (mg)'', CalciumMg),
      (''Chromium ('' @ micro @ ''g)'', ChromiumUg),
      (''Copper (mg)'', CopperMg),
      (''Fluoride ('' @ micro @ ''g)'', FluorideUg),
      (''Iodine ('' @ micro @ ''g)'', IodineUg),
      (''Iron (mg)'', IronMg),
      (''Magnesium (mg)'', MagnesiumMg),
      (''Manganese (mg)'', ManganeseMg),
      (''Phosphorus (mg)'', PhosphorusMg),
      (''Potassium (mg)'', PotassiumMg),
      (''Selenium ('' @ micro @ ''g)'', SeleniumUg),
      (''Sodium (mg)'', SodiumMg),
      (''Zinc (mg)'', ZincMg),
      (''Carbs (g)'', CarbsG),
      (''Fiber (g)'', FiberG),
      (''Fructose (g)'', FructoseG),
      (''Galactose (g)'', GalactoseG),
      (''Glucose (g)'', GlucoseG),
      (''Lactose (g)'', LactoseG),
      (''Maltose (g)'', MaltoseG),
      (''Starch (g)'', StarchG),
      (''Sucrose (g)'', SucroseG),
      (''Sugars (g)'', SugarsG),
      (''Net Carbs (g)'', NetCarbsG),
      (''Fat (g)'', FatG),
      (''Cholesterol (mg)'', CholesterolMg),
      (''Monounsaturated (g)'', MonounsaturatedG),
      (''Polyunsaturated (g)'', PolyunsaturatedG),
      (''Saturated (g)'', SaturatedG),
      (''Trans-Fats (g)'', TransFatG),
      (''Omega-3 (g)'', Omega3G),
      (''Omega-6 (g)'', Omega6G),
      (''Cystine (g)'', CystineG),
      (''Histidine (g)'', HistidineG),
      (''Isoleucine (g)'', IsoleucineG),
      (''Leucine (g)'', LeucineG),
      (''Lysine (g)'', LysineG),
      (''Methionine (g)'', MethionineG),
      (''Phenylalanine (g)'', PhenylalanineG),
      (''Protein (g)'', ProteinG),
      (''Threonine (g)'', ThreonineG),
      (''Tryptophan (g)'', TryptophanG),
      (''Tyrosine (g)'', TyrosineG),
      (''Valine (g)'', ValineG)]"

subsection \<open>A row as a list of named cells\<close>

text \<open>
  \<open>scanPairs\<close> is \<open>scanRecord\<close> on cells that are already paired with their column
  names.
\<close>

fun scanPairs ::
  "(string \<Rightarrow> string \<Rightarrow> 's \<Rightarrow> error + 's) \<Rightarrow> (string \<times> string) list \<Rightarrow> 's \<Rightarrow> error + 's" where
  "scanPairs cell [] st = Inr st"
| "scanPairs cell ((name, v) # ps) st =
     (case cell name v st of Inl err \<Rightarrow> Inl err | Inr st' \<Rightarrow> scanPairs cell ps st')"

subsection \<open>A table with one more column\<close>

text \<open>
  \<open>insertColumn k col 0 reads\<close> is the table \<open>reads\<close> with a new column at position
  \<open>k\<close> of every row; \<open>col i\<close> is the cell of the new column in the \<open>i\<close>-th read, so
  \<open>col 0\<close> is its header name.
\<close>

definition insertAt :: "nat \<Rightarrow> 'a \<Rightarrow> 'a list \<Rightarrow> 'a list" where
  "insertAt k x xs = take k xs @ x # drop k xs"

fun insertColumn :: "nat \<Rightarrow> (nat \<Rightarrow> string) \<Rightarrow> nat \<Rightarrow> reads \<Rightarrow> reads" where
  "insertColumn k col i [] = []"
| "insertColumn k col i (Inl err # rest) = Inl err # insertColumn k col (i + 1) rest"
| "insertColumn k col i (Inr record # rest) =
     Inr (insertAt k (col i) record) # insertColumn k col (i + 1) rest"

subsection \<open>An instance of the coercion parameter\<close>

text \<open>
  To evaluate the model on concrete tables the parameter \<open>pf\<close> needs a value.
  \<open>decimalFloat\<close> reads a plain decimal (an optional sign, digits, at most one point) as
  the exact rational number and refuses every other string with the \<open>NumError\<close> that
  \<open>strconv.ParseFloat\<close> gives for a syntax error. It is used at no other place: no
  theorem about all inputs depends on it.
\<close>

definition decimalFloat :: "rat ParseFloat" where
  "decimalFloat s bitSize =
     (let (neg, body) =
            (if s \<noteq> [] \<and> hd s = CHR ''-'' then (True, tl s)
             else if s \<noteq> [] \<and> hd s = CHR ''+'' then (False, tl s)
             else (False, s));
          (ip, fp) = (case cutAt (CHR ''.'') body of None \<Rightarrow> (body, []) | Some (a, b) \<Rightarrow> (a, b))
      in if ip @ fp \<noteq> [] \<and> list_all isDigitChar (ip @ fp)
         then Inr ((if neg then - 1 else 1)
                   * of_int (foldl (\<lambda>x c. x * 10 + digitVal c) 0 (ip @ fp)) / 10 ^ length fp)
         else Inl (NumError ''ParseFloat'' s ErrSyntax))"

section \<open>The read loop\<close>

text \<open>Beside an error the loop returns the nil slice, whatever it had accumulated.\<close>

lemma readLoop_error_nil:
  "readLoop row reads lineNum headers records location = (rs, Some err) \<Longrightarrow> rs = []"
proof (induction reads arbitrary: lineNum headers records location)
  case Nil
  then show ?case by simp
next
  case (Cons x rest)
  show ?case
  proof (cases x)
    case (Inl e)
    with Cons.prems show ?thesis by simp
  next
    case (Inr rec)
    show ?thesis
    proof (cases "lineNum = 0")
      case True
      with Cons.prems Inr Cons.IH show ?thesis by simp
    next
      case False
      with Cons.prems Inr Cons.IH show ?thesis
        by (auto split: sum.splits prod.splits)
    qed
  qed
qed

lemma readLoop_read_error:
  "Inl e \<in> set reads \<Longrightarrow> snd (readLoop row reads lineNum headers records location) \<noteq> None"
  by (induction row reads lineNum headers records location rule: readLoop.induct)
     (auto split: sum.splits prod.splits)

lemma orUTC_idem: "orUTC (orUTC l) = orUTC l"
  by (simp add: orUTC_def)

text \<open>
  The row bodies treat a nil location as UTC and hand the location on with nil replaced.
  For such a body the rows after the header are decoded one by one, each as if it were
  the first: a successful loop returns one record for each read, in the order of the reads.
\<close>

lemma readLoop_rows:
  assumes norm: "\<And>h r l. row h r (orUTC l) = row h r l"
      and out: "\<And>h r l x l'. row h r l = Inr (x, l') \<Longrightarrow> l' = orUTC l"
  shows "lineNum \<noteq> 0 \<Longrightarrow> readLoop row reads lineNum headers records location = (rs, None) \<Longrightarrow>
    \<exists>rows new. reads = map Inr rows \<and> rs = records @ new \<and>
      map (\<lambda>r. row headers r location) rows = map (\<lambda>x. Inr (x, orUTC location)) new"
proof (induction reads arbitrary: lineNum records location)
  case Nil
  then show ?case by simp
next
  case (Cons x rest)
  from Cons.prems obtain rec where x: "x = Inr rec"
    by (cases x) auto
  from Cons.prems x obtain r l' where row: "row headers rec location = Inr (r, l')"
    and loop: "readLoop row rest (lineNum + 1) headers (records @ [r]) l' = (rs, None)"
    by (auto split: sum.splits prod.splits)
  from row have l': "l' = orUTC location" by (rule out)
  from Cons.IH [OF _ loop] obtain rows new where rest: "rest = map Inr rows"
    and rs: "rs = (records @ [r]) @ new"
    and m: "map (\<lambda>r. row headers r l') rows = map (\<lambda>x. Inr (x, orUTC l')) new"
    by auto
  have "row headers r l' = row headers r location" for r
    by (simp add: l' norm)
  with m have m': "map (\<lambda>r. row headers r location) rows = map (\<lambda>x. Inr (x, orUTC location)) new"
    by (simp add: l' orUTC_idem)
  have a: "x # rest = map Inr (rec # rows)" by (simp add: x rest)
  have b: "rs = records @ (r # new)" by (simp add: rs)
  have c: "map (\<lambda>r. row headers r location) (rec # rows) =
           map (\<lambda>x. Inr (x, orUTC location)) (r # new)"
    using m' row l' by simp
  show ?case
    by (rule exI [where x = "rec # rows"], rule exI [where x = "r # new"]) (intro conjI a b c)
qed

lemma readLoop_first:
  assumes norm: "\<And>h r l. row h r (orUTC l) = row h r l"
      and out: "\<And>h r l x l'. row h r l = Inr (x, l') \<Longrightarrow> l' = orUTC l"
      and ok: "readLoop row reads 0 Map.empty [] location = (rs, None)"
      and ne: "reads \<noteq> []"
  shows "\<exists>header rows. reads = Inr header # map Inr rows \<and>
           map (\<lambda>r. row (indexHeaders Map.empty 0 header) r location) rows =
           map (\<lambda>x. Inr (x, orUTC location)) rs"
proof -
  from ne obtain x rest where reads: "reads = x # rest" by (cases reads) auto
  with ok obtain header where x: "x = Inr header" by (cases x) auto
  from ok reads x
  have "readLoop row rest 1 (indexHeaders Map.empty 0 header) [] location = (rs, None)"
    by simp
  then have "\<exists>rows new. rest = map Inr rows \<and> rs = [] @ new \<and>
      map (\<lambda>r. row (indexHeaders Map.empty 0 header) r location) rows =
      map (\<lambda>x. Inr (x, orUTC location)) new"
    by (intro readLoop_rows norm out) simp_all
  then obtain rows where "rest = map Inr rows"
    "map (\<lambda>r. row (indexHeaders Map.empty 0 header) r location) rows =
     map (\<lambda>x. Inr (x, orUTC location)) rs"
    by auto
  with reads x show ?thesis by blast
qed

lemma readLoop_length:
  assumes norm: "\<And>h r l. row h r (orUTC l) = row h r l"
      and out: "\<And>h r l x l'. row h r l = Inr (x, l') \<Longrightarrow> l' = orUTC l"
      and ok: "readLoop row reads 0 Map.empty [] location = (rs, None)"
  shows "length rs = length reads - 1"
proof (cases "reads = []")
  case True
  with ok show ?thesis by simp
next
  case False
  have "\<exists>header rows. reads = Inr header # map Inr rows \<and>
           map (\<lambda>r. row (indexHeaders Map.empty 0 header) r location) rows =
           map (\<lambda>x. Inr (x, orUTC location)) rs"
    by (rule readLoop_first) (fact norm, erule out, fact ok, fact False)
  then obtain header rows
    where reads: "reads = Inr header # map Inr rows"
      and m: "map (\<lambda>r. row (indexHeaders Map.empty 0 header) r location) rows =
              map (\<lambda>x. Inr (x, orUTC location)) rs"
    by blast
  from m have "length rows = length rs" by (rule map_eq_imp_length_eq)
  with reads show ?thesis by simp
qed

text \<open>A row that fails anywhere in the table makes the call fail.\<close>

lemma readLoop_row_error:
  assumes norm: "\<And>h r l. row h r (orUTC l) = row h r l"
      and out: "\<And>h r l x l'. row h r l = Inr (x, l') \<Longrightarrow> l' = orUTC l"
  shows "lineNum \<noteq> 0 \<Longrightarrow> Inr r \<in> set reads \<Longrightarrow> isl (row headers r location) \<Longrightarrow>
     snd (readLoop row reads lineNum headers records location) \<noteq> None"
proof (induction reads arbitrary: lineNum records location)
  case Nil
  then show ?case by simp
next
  case (Cons x rest)
  show ?case
  proof (cases x)
    case (Inl e)
    then show ?thesis by simp
  next
    case x: (Inr rec)
    show ?thesis
    proof (cases "row headers rec location")
      case (Inl e)
      with x Cons.prems show ?thesis by simp
    next
      case (Inr res)
      obtain y l' where res: "res = (y, l')" by (cases res)
      from Inr res have l': "l' = orUTC location" by (auto dest: out)
      from Cons.prems x Inr have "Inr r \<in> set rest"
        by (auto simp: isl_def)
      moreover from Cons.prems(3) have "isl (row headers r l')"
        by (simp add: l' norm)
      ultimately have "snd (readLoop row rest (lineNum + 1) headers (records @ [y]) l') \<noteq> None"
        using Cons.IH by simp
      with Inr res x Cons.prems(1) show ?thesis by simp
    qed
  qed
qed

lemma readLoop_row_error_first:
  assumes norm: "\<And>h r l. row h r (orUTC l) = row h r l"
      and out: "\<And>h r l x l'. row h r l = Inr (x, l') \<Longrightarrow> l' = orUTC l"
      and r: "Inr r \<in> set rest" "isl (row (indexHeaders Map.empty 0 header) r location)"
  shows "snd (readLoop row (Inr header # rest) 0 Map.empty [] location) \<noteq> None"
proof -
  have "snd (readLoop row rest 1 (indexHeaders Map.empty 0 header) [] location) \<noteq> None"
    using r by (intro readLoop_row_error norm out) simp_all
  then show ?thesis by simp
qed

text \<open>The first row that fails, after rows that decode, decides the result of the call.\<close>

lemma readLoop_failing_row:
  assumes norm: "\<And>h r l. row h r (orUTC l) = row h r l"
      and out: "\<And>h r l x l'. row h r l = Inr (x, l') \<Longrightarrow> l' = orUTC l"
  shows "lineNum \<noteq> 0 \<Longrightarrow> \<forall>r' \<in> set rows. \<not> isl (row headers r' location) \<Longrightarrow>
     row headers r location = Inl err \<Longrightarrow>
     readLoop row (map Inr rows @ Inr r # rest) lineNum headers records location =
       ([], Some err)"
proof (induction rows arbitrary: lineNum records location)
  case Nil
  then show ?case by simp
next
  case (Cons r0 rows)
  from Cons.prems(2) obtain res where "row headers r0 location = Inr res"
    by (cases "row headers r0 location") auto
  moreover obtain x l' where res: "res = (x, l')" by (cases res)
  ultimately have r0: "row headers r0 location = Inr (x, l')" by simp
  then have l': "l' = orUTC location" by (rule out)
  have same: "row headers r' l' = row headers r' location" for r'
    by (simp add: l' norm)
  have "readLoop row (map Inr rows @ Inr r # rest) (lineNum + 1) headers (records @ [x]) l' =
          ([], Some err)"
    using Cons.prems by (intro Cons.IH) (simp_all add: same)
  with r0 Cons.prems(1) show ?case by simp
qed

subsection \<open>The three row bodies and the location\<close>

lemma servingRow_orUTC: "servingRow pf h r (orUTC l) = servingRow pf h r l"
  by (simp add: servingRow_def orUTC_idem split: sum.splits prod.splits)

lemma servingRow_location: "servingRow pf h r l = Inr (x, l') \<Longrightarrow> l' = orUTC l"
  by (auto simp: servingRow_def Let_def split: sum.splits prod.splits)

lemma exerciseRow_orUTC: "exerciseRow pf h r (orUTC l) = exerciseRow pf h r l"
  by (simp add: exerciseRow_def orUTC_idem split: sum.splits prod.splits)

lemma exerciseRow_location: "exerciseRow pf h r l = Inr (x, l') \<Longrightarrow> l' = orUTC l"
  by (auto simp: exerciseRow_def Let_def split: sum.splits prod.splits)

lemma biometricRow_orUTC: "biometricRow pf h r (orUTC l) = biometricRow pf h r l"
  by (simp add: biometricRow_def orUTC_idem split: sum.splits prod.splits)

lemma biometricRow_location: "biometricRow pf h r l = Inr (x, l') \<Longrightarrow> l' = orUTC l"
  by (auto simp: biometricRow_def Let_def split: sum.splits prod.splits)

section \<open>Properties of the three entry points\<close>

text \<open>
  Claim C10. An input that is empty, or that holds a header row and nothing else, makes
  each entry point return the empty collection and no error, whatever the header row
  contains.
\<close>

theorem empty_or_header_only:
  "ParseServingsExport pf [] location = ([], None)
   \<and> ParseServingsExport pf [Inr header] location = ([], None)
   \<and> ParseExerciseExport pf [] location = ([], None)
   \<and> ParseExerciseExport pf [Inr header] location = ([], None)
   \<and> ParseBiometricRecordsExport pf [] location = ([], None)
   \<and> ParseBiometricRecordsExport pf [Inr header] location = ([], None)"
  by (simp add: ParseServingsExport_def ParseExerciseExport_def ParseBiometricRecordsExport_def)

theorem empty_or_header_only_witness:
  "ParseServingsExport decimalFloat [Inr [''Day'', ''Surprise'', '''', ''Day'']] None = ([], None)
   \<and> ParseExerciseExport decimalFloat [] (Some UTC) = ([], None)
   \<and> ParseBiometricRecordsExport decimalFloat [Inr []] None = ([], None)"
  using empty_or_header_only [of decimalFloat None "[''Day'', ''Surprise'', '''', ''Day'']"]
    empty_or_header_only [of decimalFloat "Some UTC"]
    empty_or_header_only [of decimalFloat None "[]"]
  by simp

text \<open>
  Claim C6. When an entry point succeeds, the reads are a header followed by rows, the
  collection has one record for each of these rows, and the \<open>i\<close>-th record is the one the
  row body decodes from the \<open>i\<close>-th row: nothing is dropped, merged or reordered.
\<close>

theorem one_record_per_row:
  "(ParseServingsExport pf reads location = (servings, None) \<longrightarrow>
      length servings = length reads - 1 \<and>
      (reads \<noteq> [] \<longrightarrow>
        (\<exists>header rows. reads = Inr header # map Inr rows \<and>
           map (\<lambda>r. servingRow pf (indexHeaders Map.empty 0 header) r location) rows =
           map (\<lambda>x. Inr (x, orUTC location)) servings)))
   \<and> (ParseExerciseExport pf reads location = (exercises, None) \<longrightarrow>
      length exercises = length reads - 1 \<and>
      (reads \<noteq> [] \<longrightarrow>
        (\<exists>header rows. reads = Inr header # map Inr rows \<and>
           map (\<lambda>r. exerciseRow pf (indexHeaders Map.empty 0 header) r location) rows =
           map (\<lambda>x. Inr (x, orUTC location)) exercises)))
   \<and> (ParseBiometricRecordsExport pf reads location = (records, None) \<longrightarrow>
      length records = length reads - 1 \<and>
      (reads \<noteq> [] \<longrightarrow>
        (\<exists>header rows. reads = Inr header # map Inr rows \<and>
           map (\<lambda>r. biometricRow pf (indexHeaders Map.empty 0 header) r location) rows =
           map (\<lambda>x. Inr (x, orUTC location)) records)))"
proof (intro conjI impI)
  assume ok: "ParseServingsExport pf reads location = (servings, None)"
  then show "length servings = length reads - 1"
    unfolding ParseServingsExport_def
    by - (rule readLoop_length [where row = "servingRow pf"],
          rule servingRow_orUTC, erule servingRow_location, assumption+)
  assume "reads \<noteq> []"
  with ok show "\<exists>header rows. reads = Inr header # map Inr rows \<and>
           map (\<lambda>r. servingRow pf (indexHeaders Map.empty 0 header) r location) rows =
           map (\<lambda>x. Inr (x, orUTC location)) servings"
    unfolding ParseServingsExport_def
    by - (rule readLoop_first [where row = "servingRow pf"],
          rule servingRow_orUTC, erule servingRow_location, assumption+)
next
  assume ok: "ParseExerciseExport pf reads location = (exercises, None)"
  then show "length exercises = length reads - 1"
    unfolding ParseExerciseExport_def
    by - (rule readLoop_length [where row = "exerciseRow pf"],
          rule exerciseRow_orUTC, erule exerciseRow_location, assumption+)
  assume "reads \<noteq> []"
  with ok show "\<exists>header rows. reads = Inr header # map Inr rows \<and>
           map (\<lambda>r. exerciseRow pf (indexHeaders Map.empty 0 header) r location) rows =
           map (\<lambda>x. Inr (x, orUTC location)) exercises"
    unfolding ParseExerciseExport_def
    by - (rule readLoop_first [where row = "exerciseRow pf"],
          rule exerciseRow_orUTC, erule exerciseRow_location, assumption+)
next
  assume ok: "ParseBiometricRecordsExport pf reads location = (records, None)"
  then show "length records = length reads - 1"
    unfolding ParseBiometricRecordsExport_def
    by - (rule readLoop_length [where row = "biometricRow pf"],
          rule biometricRow_orUTC, erule biometricRow_location, assumption+)
  assume "reads \<noteq> []"
  with ok show "\<exists>header rows. reads = Inr header # map Inr rows \<and>
           map (\<lambda>r. biometricRow pf (indexHeaders Map.empty 0 header) r location) rows =
           map (\<lambda>x. Inr (x, orUTC location)) records"
    unfolding ParseBiometricRecordsExport_def
    by - (rule readLoop_first [where row = "biometricRow pf"],
          rule biometricRow_orUTC, erule biometricRow_location, assumption+)
qed

theorem one_record_per_row_witness:
  "ParseExerciseExport decimalFloat
     [Inr [''Day'', ''Time'', ''Exercise'', ''Minutes''],
      Inr [''2023-05-01'', ''07:15'', ''Rowing'', ''30''],
      Inr [''2023-05-01'', ''07:15'', ''Rowing'', ''30''],
      Inr [''2023-04-30'', ''18:00'', ''Walking'', ''12.5'']] None =
     ([\<lparr>ExerciseRecord.RecordedTime = Date 2023 5 1 7 15 0 0 UTC, Exercise = ''Rowing'',
        Minutes = 30, CaloriesBurned = 0\<rparr>,
       \<lparr>ExerciseRecord.RecordedTime = Date 2023 5 1 7 15 0 0 UTC, Exercise = ''Rowing'',
        Minutes = 30, CaloriesBurned = 0\<rparr>,
       \<lparr>ExerciseRecord.RecordedTime = Date 2023 4 30 18 0 0 0 UTC, Exercise = ''Walking'',
        Minutes = 25 / 2, CaloriesBurned = 0\<rparr>], None)
   \<and> length
        [\<lparr>ExerciseRecord.RecordedTime = Date 2023 5 1 7 15 0 0 UTC, Exercise = ''Rowing'',
          Minutes = 30 :: rat, CaloriesBurned = 0\<rparr>,
         \<lparr>ExerciseRecord.RecordedTime = Date 2023 5 1 7 15 0 0 UTC, Exercise = ''Rowing'',
          Minutes = 30, CaloriesBurned = 0\<rparr>,
         \<lparr>ExerciseRecord.RecordedTime = Date 2023 4 30 18 0 0 0 UTC, Exercise = ''Walking'',
          Minutes = 25 / 2, CaloriesBurned = 0\<rparr>] =
      length
        [Inr [''Day'', ''Time'', ''Exercise'', ''Minutes''],
         Inr [''2023-05-01'', ''07:15'', ''Rowing'', ''30''],
         Inr [''2023-05-01'', ''07:15'', ''Rowing'', ''30''],
         Inr [''2023-04-30'', ''18:00'', ''Walking'', ''12.5'' :: string] :: error + string list] - 1"
proof -
  have run: "ParseExerciseExport decimalFloat
     [Inr [''Day'', ''Time'', ''Exercise'', ''Minutes''],
      Inr [''2023-05-01'', ''07:15'', ''Rowing'', ''30''],
      Inr [''2023-05-01'', ''07:15'', ''Rowing'', ''30''],
      Inr [''2023-04-30'', ''18:00'', ''Walking'', ''12.5'']] None =
     ([\<lparr>ExerciseRecord.RecordedTime = Date 2023 5 1 7 15 0 0 UTC, Exercise = ''Rowing'',
        Minutes = 30, CaloriesBurned = 0\<rparr>,
       \<lparr>ExerciseRecord.RecordedTime = Date 2023 5 1 7 15 0 0 UTC, Exercise = ''Rowing'',
        Minutes = 30, CaloriesBurned = 0\<rparr>,
       \<lparr>ExerciseRecord.RecordedTime = Date 2023 4 30 18 0 0 0 UTC, Exercise = ''Walking'',
        Minutes = 25 / 2, CaloriesBurned = 0\<rparr>], None)"
    by code_simp
  from one_record_per_row [THEN conjunct2, THEN conjunct1, rule_format, OF run, THEN conjunct1]
    run
  show ?thesis by (intro conjI)
qed

text \<open>The three ways the loop can go wrong, for a row body that treats the location as above.\<close>

lemma readLoop_aborts:
  assumes norm: "\<And>h r l. row h r (orUTC l) = row h r l"
      and out: "\<And>h r l x l'. row h r l = Inr (x, l') \<Longrightarrow> l' = orUTC l"
  shows "(snd (readLoop row reads 0 Map.empty [] location) \<noteq> None \<longrightarrow>
            fst (readLoop row reads 0 Map.empty [] location) = [])
       \<and> (Inl e \<in> set reads \<longrightarrow> snd (readLoop row reads 0 Map.empty [] location) \<noteq> None)
       \<and> (reads = Inr header # rest \<and> Inr r \<in> set rest
            \<and> isl (row (indexHeaders Map.empty 0 header) r location) \<longrightarrow>
          snd (readLoop row reads 0 Map.empty [] location) \<noteq> None)"
proof (intro conjI impI)
  assume "snd (readLoop row reads 0 Map.empty [] location) \<noteq> None"
  then obtain rs err where "readLoop row reads 0 Map.empty [] location = (rs, Some err)"
    by (cases "readLoop row reads 0 Map.empty [] location") auto
  then show "fst (readLoop row reads 0 Map.empty [] location) = []"
    by (auto dest: readLoop_error_nil)
next
  assume "Inl e \<in> set reads"
  then show "snd (readLoop row reads 0 Map.empty [] location) \<noteq> None"
    by (rule readLoop_read_error)
next
  assume a: "reads = Inr header # rest \<and> Inr r \<in> set rest
        \<and> isl (row (indexHeaders Map.empty 0 header) r location)"
  then have "snd (readLoop row (Inr header # rest) 0 Map.empty [] location) \<noteq> None"
    by (intro readLoop_row_error_first [where r = r] norm out) simp_all
  with a show "snd (readLoop row reads 0 Map.empty [] location) \<noteq> None"
    by simp
qed

text \<open>
  Claim C7. Every failure aborts the whole call. For each entry point: beside an error
  the returned collection is nil, never the rows decoded so far; an error of the reader
  anywhere in the input makes the call fail; and a row that the row body rejects (a
  composite cell without its two parts, a cell that is not a number, a date and time that
  do not fit the layout) makes the call fail, wherever the row stands.
\<close>

theorem failure_aborts_call:
  "((snd (ParseServingsExport pf reads location) \<noteq> None \<longrightarrow>
       fst (ParseServingsExport pf reads location) = [])
    \<and> (Inl e \<in> set reads \<longrightarrow> snd (ParseServingsExport pf reads location) \<noteq> None)
    \<and> (reads = Inr header # rest \<and> Inr r \<in> set rest
         \<and> isl (servingRow pf (indexHeaders Map.empty 0 header) r location) \<longrightarrow>
       snd (ParseServingsExport pf reads location) \<noteq> None))
   \<and> ((snd (ParseExerciseExport pf reads location) \<noteq> None \<longrightarrow>
       fst (ParseExerciseExport pf reads location) = [])
    \<and> (Inl e \<in> set reads \<longrightarrow> snd (ParseExerciseExport pf reads location) \<noteq> None)
    \<and> (reads = Inr header # rest \<and> Inr r \<in> set rest
         \<and> isl (exerciseRow pf (indexHeaders Map.empty 0 header) r location) \<longrightarrow>
       snd (ParseExerciseExport pf reads location) \<noteq> None))
   \<and> ((snd (ParseBiometricRecordsExport pf reads location) \<noteq> None \<longrightarrow>
       fst (ParseBiometricRecordsExport pf reads location) = [])
    \<and> (Inl e \<in> set reads \<longrightarrow> snd (ParseBiometricRecordsExport pf reads location) \<noteq> None)
    \<and> (reads = Inr header # rest \<and> Inr r \<in> set rest
         \<and> isl (biometricRow pf (indexHeaders Map.empty 0 header) r location) \<longrightarrow>
       snd (ParseBiometricRecordsExport pf reads location) \<noteq> None))"
proof -
  have s: "(snd (readLoop (servingRow pf) reads 0 Map.empty [] location) \<noteq> None \<longrightarrow>
            fst (readLoop (servingRow pf) reads 0 Map.empty [] location) = [])
       \<and> (Inl e \<in> set reads \<longrightarrow>
            snd (readLoop (servingRow pf) reads 0 Map.empty [] location) \<noteq> None)
       \<and> (reads = Inr header # rest \<and> Inr r \<in> set rest
            \<and> isl (servingRow pf (indexHeaders Map.empty 0 header) r location) \<longrightarrow>
          snd (readLoop (servingRow pf) reads 0 Map.empty [] location) \<noteq> None)"
    by (rule readLoop_aborts [where row = "servingRow pf"])
       (rule servingRow_orUTC, erule servingRow_location)
  have x: "(snd (readLoop (exerciseRow pf) reads 0 Map.empty [] location) \<noteq> None \<longrightarrow>
            fst (readLoop (exerciseRow pf) reads 0 Map.empty [] location) = [])
       \<and> (Inl e \<in> set reads \<longrightarrow>
            snd (readLoop (exerciseRow pf) reads 0 Map.empty [] location) \<noteq> None)
       \<and> (reads = Inr header # rest \<and> Inr r \<in> set rest
            \<and> isl (exerciseRow pf (indexHeaders Map.empty 0 header) r location) \<longrightarrow>
          snd (readLoop (exerciseRow pf) reads 0 Map.empty [] location) \<noteq> None)"
    by (rule readLoop_aborts [where row = "exerciseRow pf"])
       (rule exerciseRow_orUTC, erule exerciseRow_location)
  have b: "(snd (readLoop (biometricRow pf) reads 0 Map.empty [] location) \<noteq> None \<longrightarrow>
            fst (readLoop (biometricRow pf) reads 0 Map.empty [] location) = [])
       \<and> (Inl e \<in> set reads \<longrightarrow>
            snd (readLoop (biometricRow pf) reads 0 Map.empty [] location) \<noteq> None)
       \<and> (reads = Inr header # rest \<and> Inr r \<in> set rest
            \<and> isl (biometricRow pf (indexHeaders Map.empty 0 header) r location) \<longrightarrow>
          snd (readLoop (biometricRow pf) reads 0 Map.empty [] location) \<noteq> None)"
    by (rule readLoop_aborts [where row = "biometricRow pf"])
       (rule biometricRow_orUTC, erule biometricRow_location)
  show ?thesis
    unfolding ParseServingsExport_def ParseExerciseExport_def ParseBiometricRecordsExport_def
    by (rule conjI [OF s conjI [OF x b]])
qed

theorem failure_aborts_call_witness:
  "isl (biometricRow decimalFloat (indexHeaders Map.empty 0 [''Day'', ''Time'', ''Amount''])
          [''2023-05-03'', ''08:00'', ''seventy''] None)
   \<and> snd (ParseBiometricRecordsExport decimalFloat
            [Inr [''Day'', ''Time'', ''Amount''],
             Inr [''2023-05-01'', ''08:00'', ''71.5''],
             Inr [''2023-05-02'', ''08:00'', ''71.2''],
             Inr [''2023-05-03'', ''08:00'', ''seventy'']] None) \<noteq> None
   \<and> fst (ParseBiometricRecordsExport decimalFloat
            [Inr [''Day'', ''Time'', ''Amount''],
             Inr [''2023-05-01'', ''08:00'', ''71.5''],
             Inr [''2023-05-02'', ''08:00'', ''71.2''],
             Inr [''2023-05-03'', ''08:00'', ''seventy'']] None) = []"
proof -
  let ?header = "[''Day'', ''Time'', ''Amount'']"
  let ?rest = "[Inr [''2023-05-01'', ''08:00'', ''71.5''],
                Inr [''2023-05-02'', ''08:00'', ''71.2''],
                Inr [''2023-05-03'', ''08:00'', ''seventy'']] :: reads"
  have bad: "isl (biometricRow decimalFloat (indexHeaders Map.empty 0 ?header)
                    [''2023-05-03'', ''08:00'', ''seventy''] None)"
    by code_simp
  have mem: "Inr [''2023-05-03'', ''08:00'', ''seventy''] \<in> set ?rest"
    by simp
  note all = failure_aborts_call [of decimalFloat "Inr ?header # ?rest" None _ ?header ?rest
      "[''2023-05-03'', ''08:00'', ''seventy'']"]
  from all bad mem
  have err: "snd (ParseBiometricRecordsExport decimalFloat (Inr ?header # ?rest) None) \<noteq> None"
    by blast
  with all have "fst (ParseBiometricRecordsExport decimalFloat (Inr ?header # ?rest) None) = []"
    by blast
  with bad err show ?thesis by (intro conjI)
qed

section \<open>Columns the entry point does not know\<close>

text \<open>A name outside the case labels falls through the \<open>switch\<close>: the scan state is kept.\<close>

lemma exerciseCell_unknown:
  "name \<notin> set exerciseColumns \<Longrightarrow> exerciseCell pf name v st = Inr st"
  by (cases st) (simp add: exerciseCell_def exerciseColumns_def)

lemma biometricCell_unknown:
  "name \<notin> set biometricColumns \<Longrightarrow> biometricCell pf name v st = Inr st"
  by (cases st) (simp add: biometricCell_def biometricColumns_def)

lemma servingCell_unknown:
  "name \<notin> set servingColumns \<Longrightarrow> servingCell pf name v st = Inr st"
  by (cases st) (simp add: servingCell_def servingColumns_def)

subsection \<open>The scan of a row, by named cells\<close>

lemma scanRecord_pairs:
  "scanRecord cell headers i rec st =
   scanPairs cell (zip (map (columnAt headers) [i ..< i + length rec]) rec) st"
proof (induction rec arbitrary: i st)
  case Nil
  then show ?case by simp
next
  case (Cons v rec)
  have "[i ..< i + length (v # rec)] = i # [Suc i ..< Suc i + length rec]"
    by (subst upt_rec) simp
  then show ?case using Cons.IH [of "Suc i"] by (simp split: sum.splits)
qed

lemma scanRecord_append:
  "scanRecord cell headers i (xs @ ys) st =
   (case scanRecord cell headers i xs st of
      Inl err \<Rightarrow> Inl err
    | Inr st' \<Rightarrow> scanRecord cell headers (i + length xs) ys st')"
  by (induction xs arbitrary: i st) (auto split: sum.splits)

lemma scanPairs_skip:
  assumes "\<And>st. cell name v st = Inr st"
  shows "scanPairs cell (ps @ (name, v) # qs) st = scanPairs cell (ps @ qs) st"
  using assms by (induction ps arbitrary: st) (auto split: sum.splits)

lemma indexHeaders_get:
  "indexHeaders headers i hs j =
   (if i \<le> j \<and> j < i + length hs then Some (hs ! (j - i)) else headers j)"
proof (induction hs arbitrary: headers i)
  case Nil
  then show ?case by auto
next
  case (Cons h hs)
  show ?case
    by (auto simp: Cons.IH nth_Cons')
qed

lemma columnAt_index:
  "columnAt (indexHeaders Map.empty 0 hs) j = (if j < length hs then hs ! j else '''')"
  by (simp add: columnAt_def indexHeaders_get)

subsection \<open>One more column\<close>

lemma nth_insertAt:
  "k \<le> length xs \<Longrightarrow> j \<le> length xs \<Longrightarrow>
   insertAt k x xs ! j = (if j < k then xs ! j else if j = k then x else xs ! (j - 1))"
  by (auto simp: insertAt_def nth_append min_def nth_Cons')

lemma length_insertAt: "length (insertAt k x xs) = Suc (length xs)"
  by (simp add: insertAt_def)

lemma columnAt_insertAt:
  assumes "k \<le> length hs"
  shows "columnAt (indexHeaders Map.empty 0 (insertAt k name hs)) j =
         (if j < k then columnAt (indexHeaders Map.empty 0 hs) j
          else if j = k then name
          else columnAt (indexHeaders Map.empty 0 hs) (j - 1))"
  using assms by (auto simp: columnAt_index length_insertAt nth_insertAt)

lemma names_insertAt:
  assumes "k \<le> length hs" "k \<le> n"
  shows "map (columnAt (indexHeaders Map.empty 0 (insertAt k name hs))) [0 ..< Suc n] =
         insertAt k name (map (columnAt (indexHeaders Map.empty 0 hs)) [0 ..< n])"
    (is "?l = ?r")
proof (rule nth_equalityI)
  show "length ?l = length ?r"
    by (simp add: length_insertAt)
next
  fix j
  assume "j < length ?l"
  then have j: "j \<le> n" by simp
  then have "j < Suc n" by simp
  then have "?l ! j = columnAt (indexHeaders Map.empty 0 (insertAt k name hs)) j"
    by (simp only: nth_map_upt add_0)
  also have "\<dots> = ?r ! j"
    using assms j by (auto simp: columnAt_insertAt [OF assms(1)] nth_insertAt)
  finally show "?l ! j = ?r ! j" .
qed

lemma zip_insertAt:
  "length xs = length ys \<Longrightarrow>
   zip (insertAt k x xs) (insertAt k y ys) = insertAt k (x, y) (zip xs ys)"
  by (simp add: insertAt_def take_zip drop_zip)

text \<open>
  A new column whose name the \<open>switch\<close> ignores changes nothing in the scan of a row:
  the cells on its right move by one place, and so do their names.
\<close>

lemma scanRecord_insertAt:
  assumes skip: "\<And>st. cell name c st = Inr st" and k: "k \<le> length hs" "k \<le> length rec"
  shows "scanRecord cell (indexHeaders Map.empty 0 (insertAt k name hs)) 0 (insertAt k c rec) st =
         scanRecord cell (indexHeaders Map.empty 0 hs) 0 rec st"
proof -
  let ?ps = "zip (map (columnAt (indexHeaders Map.empty 0 hs)) [0 ..< length rec]) rec"
  have "scanRecord cell (indexHeaders Map.empty 0 (insertAt k name hs)) 0 (insertAt k c rec) st =
        scanPairs cell (insertAt k (name, c) ?ps) st"
    using names_insertAt [OF k, of name]
    by (simp add: scanRecord_pairs length_insertAt zip_insertAt)
  also have "\<dots> = scanPairs cell (take k ?ps @ drop k ?ps) st"
    unfolding insertAt_def using skip by (rule scanPairs_skip)
  also have "\<dots> = scanRecord cell (indexHeaders Map.empty 0 hs) 0 rec st"
    by (simp add: scanRecord_pairs)
  finally show ?thesis .
qed

lemma servingRow_insertAt:
  assumes "name \<notin> set servingColumns" "k \<le> length hs" "k \<le> length r"
  shows "servingRow pf (indexHeaders Map.empty 0 (insertAt k name hs)) (insertAt k c r) l =
         servingRow pf (indexHeaders Map.empty 0 hs) r l"
proof -
  have "\<And>st. servingCell pf name c st = Inr st"
    using assms(1) by (rule servingCell_unknown)
  then have "scanRecord (servingCell pf) (indexHeaders Map.empty 0 (insertAt k name hs)) 0
               (insertAt k c r) st =
             scanRecord (servingCell pf) (indexHeaders Map.empty 0 hs) 0 r st" for st
    using assms(2,3) by (rule scanRecord_insertAt)
  then show ?thesis by (simp add: servingRow_def)
qed

lemma exerciseRow_insertAt:
  assumes "name \<notin> set exerciseColumns" "k \<le> length hs" "k \<le> length r"
  shows "exerciseRow pf (indexHeaders Map.empty 0 (insertAt k name hs)) (insertAt k c r) l =
         exerciseRow pf (indexHeaders Map.empty 0 hs) r l"
proof -
  have "\<And>st. exerciseCell pf name c st = Inr st"
    using assms(1) by (rule exerciseCell_unknown)
  then have "scanRecord (exerciseCell pf) (indexHeaders Map.empty 0 (insertAt k name hs)) 0
               (insertAt k c r) st =
             scanRecord (exerciseCell pf) (indexHeaders Map.empty 0 hs) 0 r st" for st
    using assms(2,3) by (rule scanRecord_insertAt)
  then show ?thesis by (simp add: exerciseRow_def)
qed

lemma biometricRow_insertAt:
  assumes "name \<notin> set biometricColumns" "k \<le> length hs" "k \<le> length r"
  shows "biometricRow pf (indexHeaders Map.empty 0 (insertAt k name hs)) (insertAt k c r) l =
         biometricRow pf (indexHeaders Map.empty 0 hs) r l"
proof -
  have "\<And>st. biometricCell pf name c st = Inr st"
    using assms(1) by (rule biometricCell_unknown)
  then have "scanRecord (biometricCell pf) (indexHeaders Map.empty 0 (insertAt k name hs)) 0
               (insertAt k c r) st =
             scanRecord (biometricCell pf) (indexHeaders Map.empty 0 hs) 0 r st" for st
    using assms(2,3) by (rule scanRecord_insertAt)
  then show ?thesis by (simp add: biometricRow_def)
qed

lemma readLoop_insertColumn_rows:
  assumes rowEq: "\<And>r c l. k \<le> length r \<Longrightarrow> row h' (insertAt k c r) l = row h r l"
  shows "lineNum \<noteq> 0 \<Longrightarrow> \<forall>r. Inr r \<in> set reads \<longrightarrow> k \<le> length r \<Longrightarrow>
         readLoop row (insertColumn k col i reads) lineNum h' records location =
         readLoop row reads lineNum h records location"
proof (induction reads arbitrary: i lineNum records location)
  case Nil
  then show ?case by simp
next
  case (Cons x rest)
  show ?case
  proof (cases x)
    case (Inl e)
    then show ?thesis by simp
  next
    case (Inr rec)
    with Cons.prems have "k \<le> length rec" by simp
    then have "row h' (insertAt k (col i) rec) location = row h rec location"
      by (rule rowEq)
    moreover have "\<And>n rs l. readLoop row (insertColumn k col (i + 1) rest) (Suc n) h' rs l =
                   readLoop row rest (Suc n) h rs l"
      using Cons.prems(2) by (intro Cons.IH) simp_all
    ultimately show ?thesis using Inr Cons.prems(1)
      by (simp split: sum.splits prod.splits)
  qed
qed

lemma readLoop_insertColumn:
  assumes rowEq: "\<And>hs r c l. k \<le> length hs \<Longrightarrow> k \<le> length r \<Longrightarrow>
            row (indexHeaders Map.empty 0 (insertAt k (col 0) hs)) (insertAt k c r) l =
            row (indexHeaders Map.empty 0 hs) r l"
    and len: "\<forall>r. Inr r \<in> set reads \<longrightarrow> k \<le> length r"
  shows "readLoop row (insertColumn k col 0 reads) 0 Map.empty [] location =
         readLoop row reads 0 Map.empty [] location"
proof (cases reads)
  case Nil
  then show ?thesis by simp
next
  case (Cons x rest)
  show ?thesis
  proof (cases x)
    case (Inl e)
    with Cons show ?thesis by simp
  next
    case (Inr hs)
    with Cons len have hs: "k \<le> length hs" and rest: "\<forall>r. Inr r \<in> set rest \<longrightarrow> k \<le> length r"
      by simp_all
    have "readLoop row (insertColumn k col 1 rest) 1
            (indexHeaders Map.empty 0 (insertAt k (col 0) hs)) [] location =
          readLoop row rest 1 (indexHeaders Map.empty 0 hs) [] location"
      by (rule readLoop_insertColumn_rows [OF rowEq [OF hs]]) (simp_all add: rest)
    with Cons Inr show ?thesis by simp
  qed
qed

text \<open>
  Claim C8. A column whose header name the entry point does not recognise is ignored:
  the table with such a column added at a position \<open>k\<close> of every row, with any cells
  whatever, gives the result of the table without it, the same records or the same error.
\<close>

theorem unknown_column_ignored:
  assumes "\<forall>r. Inr r \<in> set reads \<longrightarrow> k \<le> length r"
  shows "(col 0 \<notin> set servingColumns \<longrightarrow>
            ParseServingsExport pf (insertColumn k col 0 reads) location =
            ParseServingsExport pf reads location)
       \<and> (col 0 \<notin> set exerciseColumns \<longrightarrow>
            ParseExerciseExport pf (insertColumn k col 0 reads) location =
            ParseExerciseExport pf reads location)
       \<and> (col 0 \<notin> set biometricColumns \<longrightarrow>
            ParseBiometricRecordsExport pf (insertColumn k col 0 reads) location =
            ParseBiometricRecordsExport pf reads location)"
  unfolding ParseServingsExport_def ParseExerciseExport_def ParseBiometricRecordsExport_def
  using assms
  by (auto intro!: readLoop_insertColumn servingRow_insertAt exerciseRow_insertAt
        biometricRow_insertAt)

theorem unknown_column_ignored_witness:
  "''Notes'' \<notin> set exerciseColumns
   \<and> ParseExerciseExport decimalFloat
        [Inr [''Day'', ''Notes'', ''Time'', ''Minutes''],
         Inr [''2023-05-01'', ''Minutes'', ''07:15'', ''30''],
         Inr [''2023-05-02'', ''abc'', ''07:30'', ''x'']] None =
      ParseExerciseExport decimalFloat
        [Inr [''Day'', ''Time'', ''Minutes''],
         Inr [''2023-05-01'', ''07:15'', ''30''],
         Inr [''2023-05-02'', ''07:30'', ''x'']] None"
proof -
  let ?reads = "[Inr [''Day'', ''Time'', ''Minutes''],
                 Inr [''2023-05-01'', ''07:15'', ''30''],
                 Inr [''2023-05-02'', ''07:30'', ''x'']] :: reads"
  let ?col = "\<lambda>i::nat. if i = 0 then ''Notes'' else if i = 1 then ''Minutes'' else ''abc''"
  have len: "\<forall>r. Inr r \<in> set ?reads \<longrightarrow> 1 \<le> length r"
    by auto
  have name: "''Notes'' \<notin> set exerciseColumns"
    by (simp add: exerciseColumns_def)
  have "ParseExerciseExport decimalFloat (insertColumn 1 ?col 0 ?reads) None =
        ParseExerciseExport decimalFloat ?reads None"
    using unknown_column_ignored [OF len, of ?col decimalFloat None] name by simp
  then have "ParseExerciseExport decimalFloat
        [Inr [''Day'', ''Notes'', ''Time'', ''Minutes''],
         Inr [''2023-05-01'', ''Minutes'', ''07:15'', ''30''],
         Inr [''2023-05-02'', ''abc'', ''07:30'', ''x'']] None =
      ParseExerciseExport decimalFloat ?reads None"
    by (simp add: insertAt_def)
  with name show ?thesis by (intro conjI)
qed


section \<open>The time of day\<close>

text \<open>
  The parser of the layout uses the value up from the left, so a value that ends in a
  byte which is neither a digit nor part of the layout is never used up.
\<close>

lemma dropWhile_last:
  "xs \<noteq> [] \<Longrightarrow> \<not> P (last xs) \<Longrightarrow> dropWhile P xs \<noteq> [] \<and> last (dropWhile P xs) = last xs"
  by (induction xs) (auto split: if_splits)

lemma tl_last:
  "xs \<noteq> [] \<Longrightarrow> hd xs \<noteq> last xs \<Longrightarrow> tl xs \<noteq> [] \<and> last (tl xs) = last xs"
  by (cases xs) (auto split: if_splits)

lemma drop_last:
  "n < length xs \<Longrightarrow> drop n xs \<noteq> [] \<and> last (drop n xs) = last xs"
  by simp

lemma skip_keeps_last:
  "skip value prefix = Inr value' \<Longrightarrow> value \<noteq> [] \<Longrightarrow> last value = c \<Longrightarrow>
   c \<notin> set prefix \<Longrightarrow> c \<noteq> CHR '' '' \<Longrightarrow> value' \<noteq> [] \<and> last value' = c"
proof (induction "value" prefix arbitrary: value' rule: skip.induct)
  case (1 v)
  then show ?case by simp
next
  case (2 v p prefix)
  show ?case
  proof (cases "p = CHR '' ''")
    case True
    with "2.prems" have sk: "skip (cutspace v) (cutspace prefix) = Inr value'"
      by (simp split: if_splits)
    have cut: "cutspace v \<noteq> [] \<and> last (cutspace v) = c"
      unfolding cutspace_def using "2.prems"(2,3,5) dropWhile_last [of v "\<lambda>c. c = CHR '' ''"]
      by simp
    have "c \<notin> set (cutspace prefix)"
      using "2.prems"(4) set_dropWhileD [of c "\<lambda>c. c = CHR '' ''" prefix]
      by (auto simp: cutspace_def)
    with cut "2.prems"(5) sk True "2.prems"(1) show ?thesis
      by (intro "2.IH"(1)) (auto split: if_splits)
  next
    case False
    with "2.prems" have ne: "v \<noteq> []" "hd v = p"
      and sk: "skip (tl v) prefix = Inr value'"
      by (auto split: if_splits)
    from "2.prems" ne have "tl v \<noteq> [] \<and> last (tl v) = c"
      using tl_last [of v] by auto
    with False ne "2.prems" sk show ?thesis
      by (intro "2.IH"(2)) auto
  qed
qed

lemma getnum_keeps_last:
  assumes "getnum value fixed = Some (n, rest)" "value \<noteq> []" "\<not> isDigitChar (last value)"
  shows "rest \<noteq> [] \<and> last rest = last value"
proof (cases "isDigit value 1")
  case True
  with assms(1) have rest: "rest = drop 2 value" and d: "isDigit value 0" "isDigit value 1"
    by (auto simp: getnum_def split: if_splits)
  have "2 < length value"
  proof (rule ccontr)
    assume "\<not> 2 < length value"
    with d have "length value = 2" by (auto simp: isDigit_def split: if_splits)
    then have "last value = value ! 1" using assms(2) by (simp add: last_conv_nth)
    with d assms(3) show False by (auto simp: isDigit_def split: if_splits)
  qed
  then show ?thesis unfolding rest by (rule drop_last)
next
  case False
  with assms(1) have rest: "rest = drop 1 value" and d: "isDigit value 0"
    by (auto simp: getnum_def split: if_splits)
  have "1 < length value"
  proof (rule ccontr)
    assume "\<not> 1 < length value"
    with assms(2) have "length value = 1" by (cases "value") auto
    then have "last value = value ! 0" using assms(2) by (simp add: last_conv_nth)
    with d assms(3) show False by (auto simp: isDigit_def split: if_splits)
  qed
  then show ?thesis unfolding rest by (rule drop_last)
qed

lemma parseStd_keeps_last:
  assumes "parseStd alayout avalue sd value fs = Inr (rest, fs')"
    "value \<noteq> []" "\<not> isDigitChar (last value)"
  shows "rest \<noteq> [] \<and> last rest = last value"
proof (cases sd)
  case stdLongYear
  with assms(1) have rest: "rest = drop 4 value" and len: "4 \<le> length value"
    and digits: "list_all isDigitChar (take 4 value)"
    by (auto simp: parseStd_def atoi_def split: if_splits option.splits)
  have "4 < length value"
  proof (rule ccontr)
    assume "\<not> 4 < length value"
    with len have "length value = 4" by simp
    then have "last value \<in> set (take 4 value)" using assms(2) by simp
    with digits assms(3) show False by (simp add: list_all_iff)
  qed
  then show ?thesis unfolding rest by (rule drop_last)
next
  case stdZeroMonth
  with assms(1) obtain n where "getnum value True = Some (n, rest)"
    by (auto simp: parseStd_def split: option.splits if_splits)
  then show ?thesis using assms(2,3) by (rule getnum_keeps_last)
next
  case stdZeroDay
  with assms(1) obtain n where "getnum value True = Some (n, rest)"
    by (auto simp: parseStd_def split: option.splits if_splits)
  then show ?thesis using assms(2,3) by (rule getnum_keeps_last)
next
  case stdHour
  with assms(1) obtain n where "getnum value False = Some (n, rest)"
    by (auto simp: parseStd_def split: option.splits if_splits)
  then show ?thesis using assms(2,3) by (rule getnum_keeps_last)
next
  case stdZeroMinute
  with assms(1) obtain n where "getnum value True = Some (n, rest)"
    by (auto simp: parseStd_def split: option.splits if_splits)
  then show ?thesis using assms(2,3) by (rule getnum_keeps_last)
qed

lemma parseChunks_trailing:
  assumes c: "\<not> isDigitChar c" "c \<noteq> CHR '' ''"
  shows "value \<noteq> [] \<Longrightarrow> last value = c \<Longrightarrow> \<forall>(prefix, sd) \<in> set chunks. c \<notin> set prefix \<Longrightarrow>
         isl (parseChunks alayout avalue chunks value fs)"
proof (induction chunks arbitrary: "value" fs)
  case Nil
  then show ?case by simp
next
  case (Cons chunk chunks)
  obtain prefix sd where chunk: "chunk = (prefix, sd)" by (cases chunk)
  show ?case
  proof (cases "skip value prefix")
    case (Inl v)
    with chunk show ?thesis by simp
  next
    case sk: (Inr v)
    with Cons.prems chunk c have v: "v \<noteq> [] \<and> last v = c"
      by (intro skip_keeps_last [of "value" prefix]) auto
    show ?thesis
    proof (cases "parseStd alayout avalue sd v fs")
      case (Inl err)
      with chunk sk show ?thesis by simp
    next
      case (Inr res)
      obtain rest fs' where res: "res = (rest, fs')" by (cases res)
      with Inr v c have "rest \<noteq> [] \<and> last rest = last v"
        by (intro parseStd_keeps_last [of alayout avalue sd v fs rest fs']) auto
      with v Cons.prems(3) have "isl (parseChunks alayout avalue chunks rest fs')"
        by (intro Cons.IH) auto
      with chunk sk Inr res show ?thesis by simp
    qed
  qed
qed

text \<open>
  With the time of day \<open>"00:00 AM"\<close> the combined string ends in \<open>M\<close>, so it does not
  fit the layout, whatever the date is.
\<close>

lemma parseDateTime_AM: "isl (parseDateTime date ''00:00 AM'' location)"
proof -
  let ?v = "date @ '' 00:00 AM''"
  have "isl (parseChunks DateTimeFormat ?v layoutChunks ?v
               \<lparr>year = 0, month = - 1, day = - 1, hour = 0, min' = 0\<rparr>)"
    by (rule parseChunks_trailing [where c = "CHR ''M''"])
       (simp_all add: isDigitChar_def layoutChunks_def)
  then have "isl (ParseInLocation ?v loc)" for loc
    by (auto simp: ParseInLocation_def isl_def)
  then obtain err where
    "ParseInLocation ?v (case location of None \<Rightarrow> UTC | Some l \<Rightarrow> l) = Inl err"
    by (auto simp: isl_def)
  then show ?thesis
    by (simp add: parseDateTime_def)
qed

lemmas time_defs =
  parseDateTime_def ParseInLocation_def DateTimeFormat_def layoutChunks_def parseStd_def
  getnum_def atoi_def isDigit_def isDigitChar_def digitVal_def cutspace_def daysIn_def
  isLeap_def

text \<open>
  Claim C1 (the code does otherwise). A row whose Time cell is empty is not decoded to
  midnight: the three entry points replace the empty time of day by \<open>"00:00 AM"\<close>, which
  the layout \<open>"2006-01-02 15:04"\<close> rejects as extra text, so the call fails. This is so
  for every date, since the combined string then ends in \<open>" AM"\<close>; \<open>parseDateTime\<close>
  itself, given the empty time of day, does give midnight of the date.
\<close>

theorem empty_time_rejected:
  "ParseServingsExport pf [Inr [''Day'', ''Time''], Inr [''2023-05-01'', '''']] location =
     ([], Some (Errorf ''parsing serving time: %w''
        [E (Errorf ''invalid date/time format %q: %w''
           [S ''2023-05-01 00:00 AM'',
            E (ParseError ''2006-01-02 15:04'' ''2023-05-01 00:00 AM'' '''' '' AM''
                 (ExtraText '' AM''))])]))
   \<and> ParseExerciseExport pf [Inr [''Day'', ''Time''], Inr [''2023-05-01'', '''']] location =
     ([], Some (Errorf ''parsing exercise time: %w''
        [E (Errorf ''invalid date/time format %q: %w''
           [S ''2023-05-01 00:00 AM'',
            E (ParseError ''2006-01-02 15:04'' ''2023-05-01 00:00 AM'' '''' '' AM''
                 (ExtraText '' AM''))])]))
   \<and> ParseBiometricRecordsExport pf [Inr [''Day'', ''Time''], Inr [''2023-05-01'', '''']] location =
     ([], Some (Errorf ''parsing biometric time: %w''
        [E (Errorf ''invalid date/time format %q: %w''
           [S ''2023-05-01 00:00 AM'',
            E (ParseError ''2006-01-02 15:04'' ''2023-05-01 00:00 AM'' '''' '' AM''
                 (ExtraText '' AM''))])]))
   \<and> isl (parseDateTime date ''00:00 AM'' location)
   \<and> parseDateTime ''2023-05-01'' '''' location =
       Inr (Date 2023 5 1 0 0 0 0 (case location of None \<Rightarrow> UTC | Some l \<Rightarrow> l))"
proof (intro conjI)
  have t: "parseDateTime ''2023-05-01'' ''00:00 AM'' l =
        Inl (Errorf ''invalid date/time format %q: %w''
           [S ''2023-05-01 00:00 AM'',
            E (ParseError ''2006-01-02 15:04'' ''2023-05-01 00:00 AM'' '''' '' AM''
                 (ExtraText '' AM''))])" for l
    by (simp add: time_defs Let_def)
  show "ParseServingsExport pf [Inr [''Day'', ''Time''], Inr [''2023-05-01'', '''']] location =
     ([], Some (Errorf ''parsing serving time: %w''
        [E (Errorf ''invalid date/time format %q: %w''
           [S ''2023-05-01 00:00 AM'',
            E (ParseError ''2006-01-02 15:04'' ''2023-05-01 00:00 AM'' '''' '' AM''
                 (ExtraText '' AM''))])]))"
    by (simp add: ParseServingsExport_def servingRow_def servingCell_def columnAt_def t)
  show "ParseExerciseExport pf [Inr [''Day'', ''Time''], Inr [''2023-05-01'', '''']] location =
     ([], Some (Errorf ''parsing exercise time: %w''
        [E (Errorf ''invalid date/time format %q: %w''
           [S ''2023-05-01 00:00 AM'',
            E (ParseError ''2006-01-02 15:04'' ''2023-05-01 00:00 AM'' '''' '' AM''
                 (ExtraText '' AM''))])]))"
    by (simp add: ParseExerciseExport_def exerciseRow_def exerciseCell_def columnAt_def t)
  show "ParseBiometricRecordsExport pf [Inr [''Day'', ''Time''], Inr [''2023-05-01'', '''']]
          location =
     ([], Some (Errorf ''parsing biometric time: %w''
        [E (Errorf ''invalid date/time format %q: %w''
           [S ''2023-05-01 00:00 AM'',
            E (ParseError ''2006-01-02 15:04'' ''2023-05-01 00:00 AM'' '''' '' AM''
                 (ExtraText '' AM''))])]))"
    by (simp add: ParseBiometricRecordsExport_def biometricRow_def biometricCell_def
          columnAt_def t)
  show "isl (parseDateTime date ''00:00 AM'' location)"
    by (rule parseDateTime_AM)
  show "parseDateTime ''2023-05-01'' '''' location =
       Inr (Date 2023 5 1 0 0 0 0 (case location of None \<Rightarrow> UTC | Some l \<Rightarrow> l))"
    by (simp add: time_defs Let_def)
qed

theorem empty_time_rejected_witness:
  "snd (ParseServingsExport decimalFloat [Inr [''Day'', ''Time''], Inr [''2023-05-01'', '''']]
          (Some (LoadLocation ''America/Toronto''))) \<noteq> None
   \<and> isl (parseDateTime ''2024-02-29'' ''00:00 AM'' (Some (LoadLocation ''America/Toronto'')))
   \<and> parseDateTime ''2023-05-01'' '''' (Some (LoadLocation ''America/Toronto'')) =
       Inr (Date 2023 5 1 0 0 0 0 (LoadLocation ''America/Toronto''))"
  using empty_time_rejected [of decimalFloat "Some (LoadLocation ''America/Toronto'')"
      "''2024-02-29''"]
  by simp

section \<open>Numeric cells\<close>

text \<open>
  Claim C2 (the code does otherwise). A cell that is not a number is reported with the
  name of its field only by the nutrient columns of \<open>ParseServingsExport\<close>, where
  \<open>parseNutrientFloat\<close> puts the label of the column and the raw cell into the error.
  \<open>ParseExerciseExport\<close> reports a bad Minutes cell as "parsing energy" and a bad
  Calories Burned cell as "parsing caffeine", and \<open>ParseBiometricRecordsExport\<close> a bad
  Amount cell as "parsing energy": none of these names the column, and the cell is in
  the message only as far as the error of \<open>strconv.ParseFloat\<close> holds it.
\<close>

theorem coercion_error_labels:
  assumes "v \<noteq> ''''" and "pf v 64 = Inl err"
  shows "parseNutrientFloat pf v label =
           Inl (Errorf ''parsing %s value %q: %w'' [S label, S v, E err])
       \<and> ParseServingsExport pf [Inr [''Day'', ''Energy (kcal)''], Inr [date, v]] location =
           ([], Some (Errorf ''parsing %s value %q: %w'' [S ''energy'', S v, E err]))
       \<and> ParseExerciseExport pf [Inr [''Day'', ''Minutes''], Inr [date, v]] location =
           ([], Some (Errorf ''parsing energy: %s'' [E err]))
       \<and> ParseExerciseExport pf [Inr [''Day'', ''Calories Burned''], Inr [date, v]] location =
           ([], Some (Errorf ''parsing caffeine: %s'' [E err]))
       \<and> (\<not> Contains v (CHR ''/'') \<longrightarrow>
           ParseBiometricRecordsExport pf [Inr [''Day'', ''Amount''], Inr [date, v]] location =
           ([], Some (Errorf ''parsing energy: %s'' [E err])))"
proof -
  from assms have pf: "parseFloat pf v 64 = Inl err"
    by (simp add: parseFloat_def)
  then have n: "parseNutrientFloat pf v lab =
      Inl (Errorf ''parsing %s value %q: %w'' [S lab, S v, E err])" for lab
    by (simp add: parseNutrientFloat_def)
  have s: "ParseServingsExport pf [Inr [''Day'', ''Energy (kcal)''], Inr [date, v]] location =
           ([], Some (Errorf ''parsing %s value %q: %w'' [S ''energy'', S v, E err]))"
    by (simp add: ParseServingsExport_def servingRow_def servingCell_def nutrient_def
          columnAt_def n)
  have m: "ParseExerciseExport pf [Inr [''Day'', ''Minutes''], Inr [date, v]] location =
           ([], Some (Errorf ''parsing energy: %s'' [E err]))"
    by (simp add: ParseExerciseExport_def exerciseRow_def exerciseCell_def columnAt_def pf)
  have c: "ParseExerciseExport pf [Inr [''Day'', ''Calories Burned''], Inr [date, v]] location =
           ([], Some (Errorf ''parsing caffeine: %s'' [E err]))"
    by (simp add: ParseExerciseExport_def exerciseRow_def exerciseCell_def columnAt_def pf)
  have b: "\<not> Contains v (CHR ''/'') \<longrightarrow>
           ParseBiometricRecordsExport pf [Inr [''Day'', ''Amount''], Inr [date, v]] location =
           ([], Some (Errorf ''parsing energy: %s'' [E err]))"
    by (simp add: ParseBiometricRecordsExport_def biometricRow_def biometricCell_def
          columnAt_def pf)
  from n s m c b show ?thesis by (intro conjI)
qed

theorem coercion_error_labels_witness:
  "''abc'' \<noteq> '''' \<and> decimalFloat ''abc'' 64 = Inl (NumError ''ParseFloat'' ''abc'' ErrSyntax)
   \<and> ParseExerciseExport decimalFloat [Inr [''Day'', ''Minutes''], Inr [''2023-05-01'', ''abc'']]
        None =
       ([], Some (Errorf ''parsing energy: %s'' [E (NumError ''ParseFloat'' ''abc'' ErrSyntax)]))
   \<and> ParseExerciseExport decimalFloat
        [Inr [''Day'', ''Calories Burned''], Inr [''2023-05-01'', ''abc'']] None =
       ([], Some (Errorf ''parsing caffeine: %s'' [E (NumError ''ParseFloat'' ''abc'' ErrSyntax)]))
   \<and> ParseBiometricRecordsExport decimalFloat
        [Inr [''Day'', ''Amount''], Inr [''2023-05-01'', ''abc'']] None =
       ([], Some (Errorf ''parsing energy: %s'' [E (NumError ''ParseFloat'' ''abc'' ErrSyntax)]))"
proof -
  have ne: "''abc'' \<noteq> ''''" by simp
  have pf: "decimalFloat ''abc'' 64 = Inl (NumError ''ParseFloat'' ''abc'' ErrSyntax)"
    by code_simp
  have "\<not> Contains ''abc'' (CHR ''/'')" by (simp add: Contains_def)
  with coercion_error_labels [where pf = decimalFloat and v = "''abc''"
      and err = "NumError ''ParseFloat'' ''abc'' ErrSyntax" and date = "''2023-05-01''"
      and location = None, OF ne pf] ne pf
  show ?thesis by simp
qed

section \<open>The composite Amount cell of the servings\<close>

lemma cutAt_none: "sep \<notin> set s \<Longrightarrow> cutAt sep s = None"
  by (induction s) auto

lemma cutAt_first: "sep \<notin> set a \<Longrightarrow> cutAt sep (a @ sep # b) = Some (a, b)"
  by (induction a) auto

lemma servingCell_Amount_no_space:
  "CHR '' '' \<notin> set v \<Longrightarrow> servingCell pf ''Amount'' v st = Inl (Errorf invalidAmountFormat [S v])"
  by (cases st) (simp add: servingCell_def SplitN2_def cutAt_none)

lemma servingCell_Amount_split:
  "CHR '' '' \<notin> set a \<Longrightarrow>
   servingCell pf ''Amount'' (a @ CHR '' '' # u) (date, timeStr, serving) =
     (case parseFloat pf a 64 of
        Inl err \<Rightarrow> Inl (Errorf ''parsing quantity value %q: %w'' [S a, E err])
      | Inr f \<Rightarrow> Inr (date, timeStr, serving\<lparr>QuantityValue := f, QuantityUnits := u\<rparr>))"
  by (simp add: servingCell_def SplitN2_def cutAt_first Let_def split: sum.splits)

text \<open>
  A row with an Amount cell that has no space is rejected with the format error of that
  cell, when the cells on its left are accepted.
\<close>

lemma servingRow_Amount_no_space:
  assumes i: "i < length r" and name: "columnAt h i = ''Amount''"
    and sp: "CHR '' '' \<notin> set (r ! i)"
    and left: "\<not> isl (scanRecord (servingCell pf) h 0 (take i r) ('''', '''', emptyServing))"
  shows "servingRow pf h r location = Inl (Errorf invalidAmountFormat [S (r ! i)])"
proof -
  from left obtain st where
    st: "scanRecord (servingCell pf) h 0 (take i r) ('''', '''', emptyServing) = Inr st"
    by (cases "scanRecord (servingCell pf) h 0 (take i r) ('''', '''', emptyServing)") auto
  from i have r: "r = take i r @ (r ! i) # drop (Suc i) r"
    by (simp add: id_take_nth_drop)
  from i have len: "length (take i r) = i" by simp
  have "scanRecord (servingCell pf) h 0 (take i r @ (r ! i) # drop (Suc i) r)
          ('''', '''', emptyServing) =
        Inl (Errorf invalidAmountFormat [S (r ! i)])"
    unfolding scanRecord_append st len
    by (simp add: name servingCell_Amount_no_space [OF sp])
  with r have "scanRecord (servingCell pf) h 0 r ('''', '''', emptyServing) =
        Inl (Errorf invalidAmountFormat [S (r ! i)])"
    by simp
  then show ?thesis by (simp add: servingRow_def)
qed

text \<open>Only the Amount case assigns the quantity and its unit.\<close>

lemma servingCell_quantity:
  assumes "servingCell pf name v (date, timeStr, serving) = Inr (date', timeStr', serving')"
    and "name \<noteq> ''Amount''"
  shows "QuantityValue serving' = QuantityValue serving
       \<and> QuantityUnits serving' = QuantityUnits serving"
  using assms
  by (auto simp: servingCell_def nutrient_def split: if_splits sum.splits)

lemma scanRecord_quantity:
  "scanRecord (servingCell pf) h j cells (date, timeStr, serving) =
     Inr (date', timeStr', serving') \<Longrightarrow>
   \<forall>m < length cells. columnAt h (j + m) \<noteq> ''Amount'' \<Longrightarrow>
   QuantityValue serving' = QuantityValue serving
   \<and> QuantityUnits serving' = QuantityUnits serving"
proof (induction cells arbitrary: j date timeStr serving)
  case Nil
  then show ?case by simp
next
  case (Cons v cells)
  from Cons.prems(1) obtain st where
    cell: "servingCell pf (columnAt h j) v (date, timeStr, serving) = Inr st"
    and rest: "scanRecord (servingCell pf) h (j + 1) cells st = Inr (date', timeStr', serving')"
    by (auto split: sum.splits)
  obtain d t s where st: "st = (d, t, s)" by (cases st)
  from Cons.prems(2) have "columnAt h j \<noteq> ''Amount''" by auto
  with cell st have a: "QuantityValue s = QuantityValue serving
                      \<and> QuantityUnits s = QuantityUnits serving"
    by (intro servingCell_quantity [of pf "columnAt h j" v date timeStr serving d t s]) simp_all
  have "\<forall>m < length cells. columnAt h (j + 1 + m) \<noteq> ''Amount''"
  proof (intro allI impI)
    fix m assume "m < length cells"
    then have "Suc m < length (v # cells)" by simp
    with Cons.prems(2) have "columnAt h (j + Suc m) \<noteq> ''Amount''" by blast
    then show "columnAt h (j + 1 + m) \<noteq> ''Amount''" by simp
  qed
  with rest st have "QuantityValue serving' = QuantityValue s
                   \<and> QuantityUnits serving' = QuantityUnits s"
    by (intro Cons.IH [of "j + 1" d t s]) simp_all
  with a show ?case by simp
qed

text \<open>
  In a row that is accepted, the last Amount cell gives the quantity and the unit: the
  text before its first space, coerced, and the text after it.
\<close>

lemma servingRow_quantity:
  assumes row: "servingRow pf h r location = Inr (x, l)"
    and i: "i < length r" and name: "columnAt h i = ''Amount''"
    and last: "\<forall>j < length r. i < j \<longrightarrow> columnAt h j \<noteq> ''Amount''"
    and cell: "r ! i = a @ '' '' @ u" and sp: "CHR '' '' \<notin> set a"
  shows "QuantityUnits x = u \<and> parseFloat pf a 64 = Inr (QuantityValue x)"
proof -
  from row obtain date timeStr serving t where
    scan: "scanRecord (servingCell pf) h 0 r ('''', '''', emptyServing) =
             Inr (date, timeStr, serving)"
    and x: "x = serving\<lparr>ServingRecord.RecordedTime := t\<rparr>"
    by (auto simp: servingRow_def Let_def split: sum.splits prod.splits)
  from i have r: "r = take i r @ (r ! i) # drop (Suc i) r"
    by (simp add: id_take_nth_drop)
  from i have len: "length (take i r) = i" by simp
  from scan r have "scanRecord (servingCell pf) h 0 (take i r @ (r ! i) # drop (Suc i) r)
      ('''', '''', emptyServing) = Inr (date, timeStr, serving)"
    by simp
  then obtain st1 st2 where
    "scanRecord (servingCell pf) h 0 (take i r) ('''', '''', emptyServing) = Inr st1"
    and c: "servingCell pf ''Amount'' (a @ '' '' @ u) st1 = Inr st2"
    and rest: "scanRecord (servingCell pf) h (i + 1) (drop (Suc i) r) st2 =
                 Inr (date, timeStr, serving)"
    unfolding scanRecord_append len
    by (auto simp: name cell split: sum.splits)
  obtain d1 t1 s1 where st1: "st1 = (d1, t1, s1)" by (cases st1)
  obtain d2 t2 s2 where st2: "st2 = (d2, t2, s2)" by (cases st2)
  from c st1 st2 sp obtain f where f: "parseFloat pf a 64 = Inr f"
    and s2: "s2 = s1\<lparr>QuantityValue := f, QuantityUnits := u\<rparr>"
    by (auto simp: servingCell_Amount_split split: sum.splits)
  have "\<forall>m < length (drop (Suc i) r). columnAt h (i + 1 + m) \<noteq> ''Amount''"
    using last by auto
  with rest st2 have "QuantityValue serving = QuantityValue s2
                    \<and> QuantityUnits serving = QuantityUnits s2"
    by (intro scanRecord_quantity [of pf h "i + 1" "drop (Suc i) r" d2 t2 s2 date timeStr])
       simp_all
  with s2 f x show ?thesis by simp
qed

text \<open>
  Claim C3 as the code has it. The Amount cell is cut at its first space byte, not at a
  run of white space: the text before the space is coerced to the quantity, all the text
  after it, further spaces included, is the unit (of the last Amount cell, should the
  header name Amount more than once). So \<open>"123.4 g"\<close> gives the value of \<open>"123.4"\<close>
  and the unit \<open>"g"\<close>. An Amount cell without a space byte (in particular one without
  any white space) is rejected with the format error that carries the raw cell; the call
  returns that error when the rows before have been decoded and the cells on the left of
  the Amount cell have been accepted, since an earlier failure would be returned instead.
\<close>

theorem amount_split_at_first_space:
  "(CHR '' '' \<notin> set a \<and> parseFloat pf a 64 = Inr f \<longrightarrow>
      servingCell pf ''Amount'' (a @ '' '' @ u) (date, timeStr, serving) =
        Inr (date, timeStr, serving\<lparr>QuantityValue := f, QuantityUnits := u\<rparr>))
   \<and> (CHR '' '' \<notin> set v \<longrightarrow>
      servingCell pf ''Amount'' v st = Inl (Errorf invalidAmountFormat [S v]))
   \<and> (i < length r \<and> columnAt (indexHeaders Map.empty 0 header) i = ''Amount''
        \<and> CHR '' '' \<notin> set (r ! i)
        \<and> \<not> isl (scanRecord (servingCell pf) (indexHeaders Map.empty 0 header) 0 (take i r)
                    ('''', '''', emptyServing))
        \<and> (\<forall>r' \<in> set rows.
              \<not> isl (servingRow pf (indexHeaders Map.empty 0 header) r' location)) \<longrightarrow>
      ParseServingsExport pf (Inr header # map Inr rows @ Inr r # rest) location =
        ([], Some (Errorf invalidAmountFormat [S (r ! i)])))
   \<and> (ParseServingsExport pf (Inr header # map Inr rows) location = (servings, None)
        \<and> k < length rows \<and> i < length (rows ! k)
        \<and> columnAt (indexHeaders Map.empty 0 header) i = ''Amount''
        \<and> (\<forall>j < length (rows ! k).
              i < j \<longrightarrow> columnAt (indexHeaders Map.empty 0 header) j \<noteq> ''Amount'')
        \<and> rows ! k ! i = a @ '' '' @ u \<and> CHR '' '' \<notin> set a \<longrightarrow>
      QuantityUnits (servings ! k) = u
      \<and> parseFloat pf a 64 = Inr (QuantityValue (servings ! k)))
   \<and> (pf ''123.4'' 64 = Inr f \<longrightarrow>
      ParseServingsExport pf
        [Inr [''Day'', ''Time'', ''Amount''], Inr [''2023-05-01'', ''08:00'', ''123.4 g'']]
        location =
        ([emptyServing
            \<lparr>ServingRecord.RecordedTime :=
               Date 2023 5 1 8 0 0 0 (case location of None \<Rightarrow> UTC | Some l \<Rightarrow> l),
             QuantityValue := f, QuantityUnits := ''g''\<rparr>], None))"
proof (intro conjI impI)
  assume "CHR '' '' \<notin> set a \<and> parseFloat pf a 64 = Inr f"
  then show "servingCell pf ''Amount'' (a @ '' '' @ u) (date, timeStr, serving) =
        Inr (date, timeStr, serving\<lparr>QuantityValue := f, QuantityUnits := u\<rparr>)"
    by (simp add: servingCell_Amount_split)
next
  assume "CHR '' '' \<notin> set v"
  then show "servingCell pf ''Amount'' v st = Inl (Errorf invalidAmountFormat [S v])"
    by (rule servingCell_Amount_no_space)
next
  let ?h = "indexHeaders Map.empty 0 header"
  assume a: "i < length r \<and> columnAt ?h i = ''Amount'' \<and> CHR '' '' \<notin> set (r ! i)
        \<and> \<not> isl (scanRecord (servingCell pf) ?h 0 (take i r) ('''', '''', emptyServing))
        \<and> (\<forall>r' \<in> set rows. \<not> isl (servingRow pf ?h r' location))"
  then have bad: "servingRow pf ?h r location = Inl (Errorf invalidAmountFormat [S (r ! i)])"
    by (intro servingRow_Amount_no_space) simp_all
  have "readLoop (servingRow pf) (map Inr rows @ Inr r # rest) 1 ?h [] location =
          ([], Some (Errorf invalidAmountFormat [S (r ! i)]))"
    by (rule readLoop_failing_row [where row = "servingRow pf"])
       (rule servingRow_orUTC, erule servingRow_location, simp, simp add: a, rule bad)
  then show "ParseServingsExport pf (Inr header # map Inr rows @ Inr r # rest) location =
        ([], Some (Errorf invalidAmountFormat [S (r ! i)]))"
    by (simp add: ParseServingsExport_def)
next
  let ?h = "indexHeaders Map.empty 0 header"
  assume a: "ParseServingsExport pf (Inr header # map Inr rows) location = (servings, None)
        \<and> k < length rows \<and> i < length (rows ! k) \<and> columnAt ?h i = ''Amount''
        \<and> (\<forall>j < length (rows ! k). i < j \<longrightarrow> columnAt ?h j \<noteq> ''Amount'')
        \<and> rows ! k ! i = a @ '' '' @ u \<and> CHR '' '' \<notin> set a"
  then have loop: "readLoop (servingRow pf) (map Inr rows) 1 ?h [] location = (servings, None)"
    by (simp add: ParseServingsExport_def)
  have "\<exists>rows' new. (map Inr rows :: reads) = map Inr rows' \<and> servings = [] @ new \<and>
      map (\<lambda>r. servingRow pf ?h r location) rows' = map (\<lambda>x. Inr (x, orUTC location)) new"
    by (rule readLoop_rows [where row = "servingRow pf" and lineNum = 1])
       (rule servingRow_orUTC, erule servingRow_location, simp, rule loop)
  then obtain rows' where "map Inr rows = (map Inr rows' :: reads)"
    and m: "map (\<lambda>r. servingRow pf ?h r location) rows' =
            map (\<lambda>x. Inr (x, orUTC location)) servings"
    by auto
  then have "rows' = rows"
    by (simp add: inj_map_eq_map)
  with m have m': "map (\<lambda>r. servingRow pf ?h r location) rows =
            map (\<lambda>x. Inr (x, orUTC location)) servings"
    by simp
  then have "length rows = length servings"
    by (rule map_eq_imp_length_eq)
  with a m' have "servingRow pf ?h (rows ! k) location = Inr (servings ! k, orUTC location)"
    using nth_map [of k rows "\<lambda>r. servingRow pf ?h r location"]
      nth_map [of k servings "\<lambda>x. Inr (x, orUTC location)"]
    by simp
  then show "QuantityUnits (servings ! k) = u"
    and "parseFloat pf a 64 = Inr (QuantityValue (servings ! k))"
    using a servingRow_quantity [of pf ?h "rows ! k" location "servings ! k"
        "orUTC location" i a u]
    by simp_all
next
  assume "pf ''123.4'' 64 = Inr f"
  then have "parseFloat pf ''123.4'' 64 = Inr f"
    by (simp add: parseFloat_def)
  moreover have "cutAt (CHR '' '') ''123.4 g'' = Some (''123.4'', ''g'')"
    by simp
  moreover have "parseDateTime ''2023-05-01'' ''08:00'' (orUTC location) =
      Inr (Date 2023 5 1 8 0 0 0 (case location of None \<Rightarrow> UTC | Some l \<Rightarrow> l))"
    by (cases location) (simp_all add: time_defs Let_def orUTC_def)
  ultimately show "ParseServingsExport pf
        [Inr [''Day'', ''Time'', ''Amount''], Inr [''2023-05-01'', ''08:00'', ''123.4 g'']]
        location =
        ([emptyServing
            \<lparr>ServingRecord.RecordedTime :=
               Date 2023 5 1 8 0 0 0 (case location of None \<Rightarrow> UTC | Some l \<Rightarrow> l),
             QuantityValue := f, QuantityUnits := ''g''\<rparr>], None)"
    by (simp add: ParseServingsExport_def servingRow_def servingCell_def columnAt_def
          SplitN2_def)
qed

theorem amount_split_at_first_space_witness:
  "ParseServingsExport decimalFloat
     [Inr [''Day'', ''Time'', ''Amount''],
      Inr [''2023-05-01'', ''08:00'', ''123.4 g''],
      Inr [''2023-05-02'', ''09:30'', ''5g''],
      Inr [''2023-05-03'', ''10:00'', ''7 g'']] None =
     ([], Some (Errorf invalidAmountFormat [S ''5g'']))
   \<and> ParseServingsExport decimalFloat
     [Inr [''Day'', ''Time'', ''Amount''], Inr [''2023-05-01'', ''08:00'', ''123.4 g'']] None =
     ([emptyServing
         \<lparr>ServingRecord.RecordedTime := Date 2023 5 1 8 0 0 0 UTC,
          QuantityValue := 617 / 5, QuantityUnits := ''g''\<rparr>], None)
   \<and> QuantityUnits
        ([emptyServing
            \<lparr>ServingRecord.RecordedTime := Date 2023 5 1 8 0 0 0 UTC,
             QuantityValue := 617 / 5 :: rat, QuantityUnits := ''g''\<rparr>] ! 0) = ''g''
   \<and> parseFloat decimalFloat ''123.4'' 64 = Inr (617 / 5)"
proof -
  let ?header = "[''Day'', ''Time'', ''Amount'']"
  let ?h = "indexHeaders Map.empty 0 ?header"
  let ?r1 = "[''2023-05-01'', ''08:00'', ''123.4 g'']"
  let ?r2 = "[''2023-05-02'', ''09:30'', ''5g'']"
  let ?rest = "[Inr [''2023-05-03'', ''10:00'', ''7 g'']] :: reads"
  let ?s = "emptyServing
         \<lparr>ServingRecord.RecordedTime := Date 2023 5 1 8 0 0 0 UTC,
          QuantityValue := 617 / 5 :: rat, QuantityUnits := ''g''\<rparr>"
  note inst = amount_split_at_first_space [where pf = decimalFloat and location = None
      and header = ?header and i = 2 and rows = "[?r1]" and a = "''123.4''" and u = "''g''"
      and f = "617 / 5"]
  have pf: "decimalFloat ''123.4'' 64 = Inr (617 / 5)"
    by code_simp
  have name: "columnAt ?h 2 = ''Amount''"
    unfolding columnAt_index by simp
  have left: "\<not> isl (scanRecord (servingCell decimalFloat) ?h 0 (take 2 ?r2)
                      ('''', '''', emptyServing))"
    by code_simp
  have r1: "\<not> isl (servingRow decimalFloat ?h ?r1 None)"
    by code_simp
  then have before: "\<forall>r' \<in> set [?r1]. \<not> isl (servingRow decimalFloat ?h r' None)"
    by (simp only: list.set ball_simps simp_thms)
  have "2 < length ?r2" and "CHR '' '' \<notin> set (?r2 ! 2)"
    by simp_all
  with inst [where r = ?r2 and rest = ?rest] name left before
  have "ParseServingsExport decimalFloat (Inr ?header # map Inr [?r1] @ Inr ?r2 # ?rest) None =
          ([], Some (Errorf invalidAmountFormat [S (?r2 ! 2)]))"
    by blast
  then have fails: "ParseServingsExport decimalFloat
     [Inr ?header, Inr ?r1, Inr ?r2, Inr [''2023-05-03'', ''10:00'', ''7 g'']] None =
     ([], Some (Errorf invalidAmountFormat [S ''5g'']))"
    by simp
  from inst pf have run: "ParseServingsExport decimalFloat [Inr ?header, Inr ?r1] None =
      ([?s], None)"
    by simp
  then have run': "ParseServingsExport decimalFloat (Inr ?header # map Inr [?r1]) None =
      ([?s], None)"
    by simp
  have last: "\<forall>j < length ([?r1] ! 0). 2 < j \<longrightarrow> columnAt ?h j \<noteq> ''Amount''"
    by simp
  have "0 < length [?r1]" and "2 < length ([?r1] ! 0)"
    and "[?r1] ! 0 ! 2 = ''123.4'' @ '' '' @ ''g''" and "CHR '' '' \<notin> set ''123.4''"
    by simp_all
  with inst [where k = 0 and servings = "[?s]"] run' name last
  have "QuantityUnits ([?s] ! 0) = ''g''
      \<and> parseFloat decimalFloat ''123.4'' 64 = Inr (QuantityValue ([?s] ! 0))"
    by blast
  then have "QuantityUnits ([?s] ! 0) = ''g''"
    and "parseFloat decimalFloat ''123.4'' 64 = Inr (617 / 5)"
    by simp_all
  with fails run show ?thesis by (intro conjI)
qed

text \<open>
  Claim C3 as stated fails: with two spaces the unit keeps the second one, and a tab
  is no separator at all.
\<close>

theorem amount_whitespace_run_counterexample:
  "ParseServingsExport decimalFloat
     [Inr [''Day'', ''Time'', ''Amount''], Inr [''2023-05-01'', ''08:00'', ''123.4  g'']] None =
     ([emptyServing
         \<lparr>ServingRecord.RecordedTime := Date 2023 5 1 8 0 0 0 UTC,
          QuantityValue := 617 / 5, QuantityUnits := '' g''\<rparr>], None)
   \<and> ParseServingsExport decimalFloat
     [Inr [''Day'', ''Time'', ''Amount''],
      Inr [''2023-05-01'', ''08:00'', ''123.4'' @ [CHR 0x09] @ ''g'']] None =
     ([], Some (Errorf invalidAmountFormat [S (''123.4'' @ [CHR 0x09] @ ''g'')]))"
  by code_simp

section \<open>The Amount cell of the biometric records\<close>

text \<open>
  A cell changes the Amount of the record only when its column is Amount and it holds no
  slash.
\<close>

lemma biometricCell_Amount:
  assumes "biometricCell pf name v (date, timeStr, bioRecord) = Inr (date', timeStr', bioRecord')"
    and "name = ''Amount'' \<longrightarrow> Contains v (CHR ''/'')"
  shows "Amount bioRecord' = Amount bioRecord"
  using assms by (auto simp: biometricCell_def split: if_splits sum.splits)

lemma scanPairs_Amount:
  "scanPairs (biometricCell pf) ps (date, timeStr, bioRecord) = Inr (date', timeStr', bioRecord') \<Longrightarrow>
   \<forall>(name, v) \<in> set ps. name = ''Amount'' \<longrightarrow> Contains v (CHR ''/'') \<Longrightarrow>
   Amount bioRecord' = Amount bioRecord"
proof (induction ps arbitrary: date timeStr bioRecord)
  case Nil
  then show ?case by simp
next
  case (Cons p ps)
  obtain name v where p: "p = (name, v)" by (cases p)
  from Cons.prems(1) p obtain st where
    cell: "biometricCell pf name v (date, timeStr, bioRecord) = Inr st"
    and rest: "scanPairs (biometricCell pf) ps st = Inr (date', timeStr', bioRecord')"
    by (auto split: sum.splits)
  obtain d t b where st: "st = (d, t, b)" by (cases st)
  from Cons.prems(2) p have "name = ''Amount'' \<longrightarrow> Contains v (CHR ''/'')"
    by simp
  with cell st have "Amount b = Amount bioRecord"
    by (intro biometricCell_Amount [of pf name v date timeStr bioRecord d t b]) simp_all
  moreover from rest st Cons.prems(2) have "Amount bioRecord' = Amount b"
    by (intro Cons.IH [of d t b]) simp_all
  ultimately show ?case by simp
qed

lemma biometricRow_Amount:
  assumes row: "biometricRow pf headers rec location = Inr (r, l)"
    and slash: "\<forall>i < length rec. columnAt headers i = ''Amount'' \<longrightarrow> Contains (rec ! i) (CHR ''/'')"
  shows "Amount r = 0"
proof -
  let ?ps = "zip (map (columnAt headers) [0 ..< 0 + length rec]) rec"
  let ?b0 = "\<lparr>BiometricRecord.RecordedTime = zeroTime, Metric = '''', Unit = '''', Amount = 0\<rparr>
               :: 'a BiometricRecord"
  from row obtain date timeStr bioRecord t where
    scan: "scanRecord (biometricCell pf) headers 0 rec ('''', '''', ?b0) =
             Inr (date, timeStr, bioRecord)"
    and r: "r = bioRecord\<lparr>BiometricRecord.RecordedTime := t\<rparr>"
    by (auto simp: biometricRow_def Let_def split: sum.splits prod.splits)
  from scan have "scanPairs (biometricCell pf) ?ps ('''', '''', ?b0) =
             Inr (date, timeStr, bioRecord)"
    by (simp only: scanRecord_pairs)
  moreover have "\<forall>(name, v) \<in> set ?ps. name = ''Amount'' \<longrightarrow> Contains v (CHR ''/'')"
    using slash by (auto simp: in_set_zip)
  ultimately have "Amount bioRecord = Amount ?b0"
    by (rule scanPairs_Amount)
  with r show ?thesis by simp
qed

text \<open>
  Claim C4 as the code has it. An Amount cell that contains a slash is skipped: no
  coercion is tried and no error is raised for it, whatever else it holds, and the Amount
  of the record is left as it was. It is therefore 0 when every Amount cell of the row
  holds a slash, in particular when the row has one Amount column.
\<close>

theorem slash_amount_skipped:
  "(Contains v (CHR ''/'') \<longrightarrow> biometricCell pf ''Amount'' v st = Inr st)
   \<and> (biometricRow pf headers cells location = Inr (r, l)
        \<and> (\<forall>i < length cells.
              columnAt headers i = ''Amount'' \<longrightarrow> Contains (cells ! i) (CHR ''/'')) \<longrightarrow>
      Amount r = 0)
   \<and> (Contains v (CHR ''/'') \<longrightarrow>
      ParseBiometricRecordsExport pf
        [Inr [''Day'', ''Time'', ''Amount''], Inr [''2023-05-01'', ''08:00'', v]] location =
        ([\<lparr>BiometricRecord.RecordedTime =
             Date 2023 5 1 8 0 0 0 (case location of None \<Rightarrow> UTC | Some l \<Rightarrow> l),
           Metric = '''', Unit = '''', Amount = 0\<rparr>], None))"
proof (intro conjI impI)
  assume slash: "Contains v (CHR ''/'')"
  then show "biometricCell pf ''Amount'' v st = Inr st"
    by (cases st) (simp add: biometricCell_def)
  have "parseDateTime ''2023-05-01'' ''08:00'' (orUTC location) =
      Inr (Date 2023 5 1 8 0 0 0 (case location of None \<Rightarrow> UTC | Some l \<Rightarrow> l))"
    by (cases location) (simp_all add: time_defs Let_def orUTC_def)
  with slash show "ParseBiometricRecordsExport pf
        [Inr [''Day'', ''Time'', ''Amount''], Inr [''2023-05-01'', ''08:00'', v]] location =
        ([\<lparr>BiometricRecord.RecordedTime =
             Date 2023 5 1 8 0 0 0 (case location of None \<Rightarrow> UTC | Some l \<Rightarrow> l),
           Metric = '''', Unit = '''', Amount = 0\<rparr>], None)"
    by (simp add: ParseBiometricRecordsExport_def biometricRow_def columnAt_def
          biometricCell_def)
next
  assume "biometricRow pf headers cells location = Inr (r, l)
        \<and> (\<forall>i < length cells.
              columnAt headers i = ''Amount'' \<longrightarrow> Contains (cells ! i) (CHR ''/''))"
  then show "Amount r = 0"
    using biometricRow_Amount [of pf headers cells location r l] by blast
qed

theorem slash_amount_skipped_witness:
  "Contains ''120/80'' (CHR ''/'')
   \<and> biometricCell decimalFloat ''Amount'' ''120/80''
        (''2023-05-01'', ''08:00'',
         \<lparr>BiometricRecord.RecordedTime = zeroTime, Metric = ''Blood Pressure'', Unit = ''mmHg'',
          Amount = 7\<rparr>) =
      Inr (''2023-05-01'', ''08:00'',
         \<lparr>BiometricRecord.RecordedTime = zeroTime, Metric = ''Blood Pressure'', Unit = ''mmHg'',
          Amount = 7\<rparr>)
   \<and> ParseBiometricRecordsExport decimalFloat
        [Inr [''Day'', ''Time'', ''Amount''], Inr [''2023-05-01'', ''08:00'', ''120/80'']] None =
        ([\<lparr>BiometricRecord.RecordedTime = Date 2023 5 1 8 0 0 0 UTC,
           Metric = '''', Unit = '''', Amount = 0\<rparr>], None)"
proof -
  have slash: "Contains ''120/80'' (CHR ''/'')"
    by (simp add: Contains_def)
  note inst = slash_amount_skipped [where pf = decimalFloat and v = "''120/80''"
      and location = None]
  from inst slash have "biometricCell decimalFloat ''Amount'' ''120/80'' st = Inr st" for st
    by blast
  moreover from inst slash have "ParseBiometricRecordsExport decimalFloat
        [Inr [''Day'', ''Time'', ''Amount''], Inr [''2023-05-01'', ''08:00'', ''120/80'']] None =
        ([\<lparr>BiometricRecord.RecordedTime = Date 2023 5 1 8 0 0 0 UTC,
           Metric = '''', Unit = '''', Amount = 0\<rparr>], None)"
    by simp
  ultimately show ?thesis using slash by simp
qed

text \<open>
  Claim C4 as stated fails when the header names Amount twice: the cell with the slash
  is skipped, and the Amount of the record is the one the other cell has set.
\<close>

theorem slash_amount_counterexample:
  "ParseBiometricRecordsExport decimalFloat
     [Inr [''Day'', ''Time'', ''Metric'', ''Amount'', ''Amount''],
      Inr [''2023-05-01'', ''08:00'', ''Blood Pressure'', ''5'', ''120/80'']] None =
     ([\<lparr>BiometricRecord.RecordedTime = Date 2023 5 1 8 0 0 0 UTC,
        Metric = ''Blood Pressure'', Unit = '''', Amount = 5\<rparr>], None)"
  by code_simp

section \<open>Empty numeric cells\<close>

lemma parseNutrientFloat_empty: "parseNutrientFloat pf '''' lab = Inr 0"
  by (simp add: parseNutrientFloat_def parseFloat_def)

lemma nutrient_empty:
  "nutrient pf '''' lab assign (date, timeStr, serving) = Inr (date, timeStr, assign 0 serving)"
  by (simp add: nutrient_def parseNutrientFloat_empty)

lemma nutrientColumns_empty:
  assumes "(name, field) \<in> set nutrientColumns"
  shows "\<exists>serving'. servingCell pf name '''' (date, timeStr, serving) =
                       Inr (date, timeStr, serving') \<and> field serving' = 0"
  using assms unfolding nutrientColumns_def
  apply (simp only: list.set insert_iff empty_iff prod.inject)
  apply (elim disjE conjE FalseE; hypsubst_thin; simp add: servingCell_def nutrient_empty micro_def)
  done

text \<open>
  Claim C5 as the code has it. The coercer maps the empty string to 0 and can fail on
  non-empty strings only; so an empty cell in a column that is coerced whole (every
  nutrient column of the servings, Minutes and Calories Burned of the exercises, Amount
  of the biometric records) sets its field to 0 and raises no error. The Amount column
  of the servings is not coerced whole, and is left out here.
\<close>

theorem empty_cell_is_zero:
  "parseFloat pf '''' bitSize = Inr 0
   \<and> (parseFloat pf s bitSize = Inl err \<longrightarrow> s \<noteq> '''')
   \<and> parseNutrientFloat pf '''' lab = Inr 0
   \<and> ((name, field) \<in> set nutrientColumns \<longrightarrow>
        (\<exists>serving'. servingCell pf name '''' (date, timeStr, serving) =
                       Inr (date, timeStr, serving') \<and> field serving' = 0))
   \<and> exerciseCell pf ''Minutes'' '''' (date, timeStr, exercise) =
        Inr (date, timeStr, exercise\<lparr>Minutes := 0\<rparr>)
   \<and> exerciseCell pf ''Calories Burned'' '''' (date, timeStr, exercise) =
        Inr (date, timeStr, exercise\<lparr>CaloriesBurned := 0\<rparr>)
   \<and> biometricCell pf ''Amount'' '''' (date, timeStr, bioRecord) =
        Inr (date, timeStr, bioRecord\<lparr>Amount := 0\<rparr>)"
proof (intro conjI impI)
  show "parseFloat pf '''' bitSize = Inr 0"
    by (simp add: parseFloat_def)
  show "s \<noteq> ''''" if "parseFloat pf s bitSize = Inl err"
    using that by (auto simp: parseFloat_def)
  show "parseNutrientFloat pf '''' lab = Inr 0"
    by (rule parseNutrientFloat_empty)
  show "\<exists>serving'. servingCell pf name '''' (date, timeStr, serving) =
                       Inr (date, timeStr, serving') \<and> field serving' = 0"
    if "(name, field) \<in> set nutrientColumns"
    using that by (rule nutrientColumns_empty)
  show "exerciseCell pf ''Minutes'' '''' (date, timeStr, exercise) =
        Inr (date, timeStr, exercise\<lparr>Minutes := 0\<rparr>)"
    by (simp add: exerciseCell_def parseFloat_def)
  show "exerciseCell pf ''Calories Burned'' '''' (date, timeStr, exercise) =
        Inr (date, timeStr, exercise\<lparr>CaloriesBurned := 0\<rparr>)"
    by (simp add: exerciseCell_def parseFloat_def)
  show "biometricCell pf ''Amount'' '''' (date, timeStr, bioRecord) =
        Inr (date, timeStr, bioRecord\<lparr>Amount := 0\<rparr>)"
    by (simp add: biometricCell_def parseFloat_def Contains_def)
qed

theorem empty_cell_is_zero_witness:
  "(''Iron (mg)'', IronMg) \<in> set nutrientColumns
   \<and> (\<exists>serving'. servingCell decimalFloat ''Iron (mg)'' '''' (''2023-05-01'', ''08:00'',
                      emptyServing\<lparr>IronMg := 3\<rparr>) =
                    Inr (''2023-05-01'', ''08:00'', serving') \<and> IronMg serving' = 0)
   \<and> parseFloat decimalFloat '''' 64 = Inr 0
   \<and> exerciseCell decimalFloat ''Minutes'' ''''
        (''2023-05-01'', ''07:15'',
         \<lparr>ExerciseRecord.RecordedTime = zeroTime, Exercise = ''Rowing'', Minutes = 30,
          CaloriesBurned = 250\<rparr>) =
      Inr (''2023-05-01'', ''07:15'',
         \<lparr>ExerciseRecord.RecordedTime = zeroTime, Exercise = ''Rowing'', Minutes = 0,
          CaloriesBurned = 250\<rparr>)"
proof -
  have mem: "(''Iron (mg)'', IronMg) \<in> set nutrientColumns"
    by (simp add: nutrientColumns_def)
  note inst = empty_cell_is_zero [where pf = decimalFloat and name = "''Iron (mg)''"
      and field = IronMg and date = "''2023-05-01''" and bitSize = 64]
  from inst [where timeStr = "''08:00''" and serving = "emptyServing\<lparr>IronMg := 3\<rparr>"] mem
  have "\<exists>serving'. servingCell decimalFloat ''Iron (mg)'' '''' (''2023-05-01'', ''08:00'',
                      emptyServing\<lparr>IronMg := 3\<rparr>) =
                    Inr (''2023-05-01'', ''08:00'', serving') \<and> IronMg serving' = 0"
    by blast
  moreover from inst have "parseFloat decimalFloat '''' 64 = Inr 0"
    by blast
  moreover from inst [where timeStr = "''07:15''" and exercise =
      "\<lparr>ExerciseRecord.RecordedTime = zeroTime, Exercise = ''Rowing'', Minutes = 30,
        CaloriesBurned = 250\<rparr>"]
  have "exerciseCell decimalFloat ''Minutes'' ''''
        (''2023-05-01'', ''07:15'',
         \<lparr>ExerciseRecord.RecordedTime = zeroTime, Exercise = ''Rowing'', Minutes = 30,
          CaloriesBurned = 250\<rparr>) =
      Inr (''2023-05-01'', ''07:15'',
         \<lparr>ExerciseRecord.RecordedTime = zeroTime, Exercise = ''Rowing'', Minutes = 0,
          CaloriesBurned = 250\<rparr>)"
    by simp
  ultimately show ?thesis using mem by (intro conjI)
qed

text \<open>
  Claim C5 as stated fails for the quantity of a serving: its source cell is the Amount
  cell, and an empty Amount cell has no two parts, so the call fails with the format
  error instead of giving the quantity 0.
\<close>

theorem empty_amount_counterexample:
  "ParseServingsExport decimalFloat
     [Inr [''Day'', ''Time'', ''Amount''], Inr [''2023-05-01'', ''08:00'', '''']] None =
     ([], Some (Errorf invalidAmountFormat [S '''']))"
  by code_simp

end
